theory Spec2Isabelle
  imports Complex_Main "HOL-Library.Word"
begin

section \<open>Errors and the outcome of external calls\<close>

text \<open>
  The application is a sequence of asynchronous calls into third-party libraries and
  hosted services. A promise that rejects, or a call that throws, is a value of the sum
  type \<open>error + 'a\<close> (\<open>Inl\<close> the error). The errors the repository constructs itself
  (\<open>new Error(message)\<close>) are kept apart from those that come from outside.
\<close>

datatype error =
    Error string
  | TypeError
  | External string

text \<open>
  What a call into a library, the browser or a hosted API yields: \<open>Inl why\<close> when it
  throws, \<open>Inr v\<close> when it returns \<open>v\<close>.
\<close>

type_synonym 'a external = "string + 'a"

definition external :: "'a external \<Rightarrow> error + 'a" where
  "external r = (case r of Inl why \<Rightarrow> Inl (External why) | Inr v \<Rightarrow> Inr v)"

section \<open>Strings\<close>

text \<open>\<open>Array.prototype.join\<close>.\<close>

fun join :: "string \<Rightarrow> string list \<Rightarrow> string" where
  "join sep [] = []"
| "join sep [x] = x"
| "join sep (x # y # ys) = x @ sep @ join sep (y # ys)"

text \<open>\<open>a || b\<close> on strings: the empty string is falsy.\<close>

definition or_else :: "string \<Rightarrow> string \<Rightarrow> string" where
  "or_else a b = (if a = [] then b else a)"

definition startsWith :: "string \<Rightarrow> string \<Rightarrow> bool" where
  "startsWith s p = (take (length p) s = p)"

definition endsWith :: "string \<Rightarrow> string \<Rightarrow> bool" where
  "endsWith s p = (length p \<le> length s \<and> drop (length s - length p) s = p)"

text \<open>A number inside a template literal: its decimal digits.\<close>

definition digit_char :: "nat \<Rightarrow> char" where
  "digit_char d = char_of (48 + d)"

function show_nat :: "nat \<Rightarrow> string" where
  "show_nat n = (if n < 10 then [digit_char n] else show_nat (n div 10) @ [digit_char (n mod 10)])"
  by pat_completeness auto
termination
  by (relation "measure id") auto

declare show_nat.simps [simp del]

definition newline :: string where
  "newline = [CHR 0x0A]"

section \<open>The vector store service (vectorStore.ts)\<close>

record Metadata =
  fileName :: string
  chunkIndex :: nat
  totalChunks :: nat

record DocumentChunk =
  content :: string
  metadata :: Metadata

text \<open>The library's \<open>Document\<close>: page content and metadata.\<close>

record Document =
  pageContent :: string
  doc_metadata :: Metadata

text \<open>What \<open>uploadFiles\<close> hands to the store: \<open>{ name, content }\<close>.\<close>

record ExtractedFile =
  name :: string
  file_content :: string

type_synonym embedding = "rat list"

record TextSplitter =
  chunkSize :: nat
  chunkOverlap :: nat

record MemoryVector =
  mv_document :: Document
  mv_embedding :: embedding

type_synonym MemoryVectorStore = "MemoryVector list"

type_synonym bytes = "8 word list"

text \<open>
  One choice of a completion response, as far as \<open>choices[i]?.message?.content\<close> reads
  it: \<open>None\<close> when the choice has no message, \<open>Some None\<close> when the message has no
  content, \<open>Some (Some text)\<close> otherwise.
\<close>

record Choice =
  message :: "string option option"

datatype Role = System | User | Assistant

record ChatRequest =
  model :: string
  messages :: "(Role \<times> string) list"
  max_tokens :: nat
  temperature :: rat

text \<open>
  The services and libraries outside the repository, as the functions a call reaches:
  the hosted embeddings API and the similarity measure of the in-memory index, the PDF,
  DOCX and ZIP parsers, and the hosted completion API.
\<close>

record Env =
  embedText :: "string \<Rightarrow> embedding external"
  similarity :: "embedding \<Rightarrow> embedding \<Rightarrow> rat"
  getDocument :: "bytes \<Rightarrow> (string list external) list external"
  extractRawText :: "bytes \<Rightarrow> string external"
  unzip :: "bytes \<Rightarrow> (string \<times> string external) list external"
  createCompletion :: "ChatRequest \<Rightarrow> Choice list external"

subsection \<open>The library parts\<close>

text \<open>Modelled from the spec: \<open>RecursiveCharacterTextSplitter.createDocuments\<close> of the
  langchain library, which is not part of the repository. The spec describes chunking as
  splitting the extracted text into fixed-size overlapping windows: a window of
  \<open>chunkSize\<close> characters, the next one starting \<open>chunkSize - chunkOverlap\<close> characters
  later, until a window reaches the end of the text. An empty text has no window.
\<close>

function splitText :: "nat \<Rightarrow> nat \<Rightarrow> string \<Rightarrow> string list" where
  "splitText csize coverlap text =
     (if text = [] then []
      else if length text \<le> csize \<or> csize \<le> coverlap then [text]
      else take csize text # splitText csize coverlap (drop (csize - coverlap) text))"
  by pat_completeness auto
termination
  by (relation "measure (\<lambda>(csize, coverlap, text). length text)") auto

declare splitText.simps [simp del]

definition createDocuments :: "TextSplitter \<Rightarrow> string \<Rightarrow> string list" where
  "createDocuments sp text = splitText (chunkSize sp) (chunkOverlap sp) text"

text \<open>Modelled from the spec: \<open>MemoryVectorStore.addDocuments\<close> of the langchain library,
  which is not part of the repository: every document is embedded through the hosted
  embeddings API and kept in memory with its vector; nothing is stored when an embedding
  call fails.
\<close>

fun embedDocuments :: "Env \<Rightarrow> string list \<Rightarrow> error + embedding list" where
  "embedDocuments env [] = Inr []"
| "embedDocuments env (t # ts) =
     (case external (embedText env t) of
        Inl e \<Rightarrow> Inl e
      | Inr v \<Rightarrow> (case embedDocuments env ts of Inl e \<Rightarrow> Inl e | Inr vs \<Rightarrow> Inr (v # vs)))"

definition store_addDocuments ::
  "Env \<Rightarrow> MemoryVectorStore \<Rightarrow> Document list \<Rightarrow> error + MemoryVectorStore" where
  "store_addDocuments env store docs =
     (case embedDocuments env (map pageContent docs) of
        Inl e \<Rightarrow> Inl e
      | Inr vs \<Rightarrow>
          Inr (store @ map (\<lambda>(d, v). \<lparr>mv_document = d, mv_embedding = v\<rparr>) (zip docs vs)))"

text \<open>Modelled from the spec: \<open>MemoryVectorStore.similaritySearchVectorWithScore\<close> of the
  langchain library, which is not part of the repository: the stored documents ranked by
  the similarity of their vectors to the query vector, the top \<open>k\<close> of them returned with
  their scores. \<open>k\<close> is a number of results (the callers pass 6, the default is 4).
\<close>

definition similaritySearchVectorWithScore ::
  "Env \<Rightarrow> MemoryVectorStore \<Rightarrow> embedding \<Rightarrow> nat \<Rightarrow> (Document \<times> rat) list" where
  "similaritySearchVectorWithScore env store q k =
     take k (sort_key (\<lambda>(d, s). - s)
       (map (\<lambda>mv. (mv_document mv, similarity env q (mv_embedding mv))) store))"

subsection \<open>The service\<close>

text \<open>
  \<open>embeddings\<close> holds the API key the embeddings client was created with, \<open>vectorStore\<close>
  the in-memory index; both are \<open>null\<close> until \<open>initialize\<close>.
\<close>

record VectorStoreService =
  vectorStore :: "MemoryVectorStore option"
  embeddings :: "string option"
  textSplitter :: TextSplitter

definition newVectorStoreService :: VectorStoreService where
  "newVectorStoreService =
     \<lparr>vectorStore = None, embeddings = None,
      textSplitter = \<lparr>chunkSize = 1000, chunkOverlap = 200\<rparr>\<rparr>"

definition initialize :: "string \<Rightarrow> VectorStoreService \<Rightarrow> VectorStoreService" where
  "initialize apiKey vs = vs\<lparr>embeddings := Some apiKey, vectorStore := Some []\<rparr>"

text \<open>\<open>chunks.map((chunk, index) => new Document({...}))\<close> for one document.\<close>

definition docsWithMetadata :: "TextSplitter \<Rightarrow> ExtractedFile \<Rightarrow> Document list" where
  "docsWithMetadata sp doc =
     (let chunks = createDocuments sp (file_content doc)
      in map (\<lambda>(index, chunk).
                \<lparr>pageContent = chunk,
                 doc_metadata = \<lparr>fileName = name doc, chunkIndex = index,
                                 totalChunks = length chunks\<rparr>\<rparr>)
             (enumerate 0 chunks))"

text \<open>The loop over the documents, \<open>allDocs\<close> its accumulator.\<close>

fun collectDocs :: "TextSplitter \<Rightarrow> ExtractedFile list \<Rightarrow> Document list \<Rightarrow> Document list" where
  "collectDocs sp [] allDocs = allDocs"
| "collectDocs sp (doc # rest) allDocs = collectDocs sp rest (allDocs @ docsWithMetadata sp doc)"

definition addDocuments ::
  "Env \<Rightarrow> VectorStoreService \<Rightarrow> ExtractedFile list \<Rightarrow> error + VectorStoreService" where
  "addDocuments env vs documents =
     (case vectorStore vs of
        None \<Rightarrow> Inl (Error ''Vector store not initialized'')
      | Some store \<Rightarrow>
          (case embeddings vs of
             None \<Rightarrow> Inl (Error ''Vector store not initialized'')
           | Some key \<Rightarrow>
               (case store_addDocuments env store (collectDocs (textSplitter vs) documents []) of
                  Inl e \<Rightarrow> Inl e
                | Inr store' \<Rightarrow> Inr (vs\<lparr>vectorStore := Some store'\<rparr>))))"

text \<open>
  \<open>this.embeddings!.embedQuery\<close> is a call on \<open>null\<close> when the embeddings client is
  missing: a \<open>TypeError\<close>.
\<close>

definition toChunk :: "Document \<times> rat \<Rightarrow> DocumentChunk" where
  "toChunk r =
     (case r of (doc, score) \<Rightarrow>
        \<lparr>content = pageContent doc,
         metadata = \<lparr>fileName = fileName (doc_metadata doc),
                     chunkIndex = chunkIndex (doc_metadata doc),
                     totalChunks = totalChunks (doc_metadata doc)\<rparr>\<rparr>)"

definition searchSimilar ::
  "Env \<Rightarrow> VectorStoreService \<Rightarrow> string \<Rightarrow> nat \<Rightarrow> error + DocumentChunk list" where
  "searchSimilar env vs query k =
     (case vectorStore vs of
        None \<Rightarrow> Inl (Error ''Vector store not initialized'')
      | Some store \<Rightarrow>
          (case embeddings vs of
             None \<Rightarrow> Inl TypeError
           | Some key \<Rightarrow>
               (case external (embedText env query) of
                  Inl e \<Rightarrow> Inl e
                | Inr q \<Rightarrow> Inr (map toChunk (similaritySearchVectorWithScore env store q k)))))"

definition isInitialized :: "VectorStoreService \<Rightarrow> bool" where
  "isInitialized vs = (vectorStore vs \<noteq> None \<and> embeddings vs \<noteq> None)"

definition clear :: "VectorStoreService \<Rightarrow> VectorStoreService" where
  "clear vs =
     (case embeddings vs of
        None \<Rightarrow> vs\<lparr>vectorStore := None\<rparr>
      | Some key \<Rightarrow> vs\<lparr>vectorStore := Some []\<rparr>)"

section \<open>Text extraction (openaiService.ts)\<close>

text \<open>
  The browser's \<open>File\<close>: its name and MIME type, and what reading it yields.
  \<open>arrayBuffer\<close> is the outcome of \<open>file.arrayBuffer()\<close>; \<open>readAsText\<close> is the outcome
  of \<open>FileReader.readAsText\<close>: \<open>Inl\<close> when \<open>onerror\<close> fires, \<open>Inr result\<close> when \<open>onload\<close>
  fires, \<open>result\<close> being \<open>e.target?.result\<close> (\<open>None\<close> when it is missing).
\<close>

record File =
  file_name :: string
  file_type :: string
  arrayBuffer :: "bytes external"
  readAsText :: "string option external"

record UploadedFile =
  uf_id :: string
  uf_name :: string
  uf_size :: nat
  uf_type :: string
  uf_file :: File

subsection \<open>PDF\<close>

text \<open>
  The loop over the pages, \<open>fullText\<close> its accumulator; a page is the outcome of
  \<open>getPage(i)\<close> and \<open>getTextContent()\<close>, the \<open>str\<close> of its items.
\<close>

fun pdfPages :: "(string list external) list \<Rightarrow> string \<Rightarrow> error + string" where
  "pdfPages [] fullText = Inr fullText"
| "pdfPages (page # rest) fullText =
     (case external page of
        Inl e \<Rightarrow> Inl e
      | Inr items \<Rightarrow> pdfPages rest (fullText @ join '' '' items @ newline))"

text \<open>The body of the \<open>try\<close> block of \<open>extractPdfText\<close>.\<close>

definition tryExtractPdfText :: "Env \<Rightarrow> File \<Rightarrow> error + string" where
  "tryExtractPdfText env file =
     (case external (arrayBuffer file) of
        Inl e \<Rightarrow> Inl e
      | Inr buffer \<Rightarrow>
          (case external (getDocument env buffer) of
             Inl e \<Rightarrow> Inl e
           | Inr pages \<Rightarrow>
               (case pdfPages pages [] of
                  Inl e \<Rightarrow> Inl e
                | Inr fullText \<Rightarrow>
                    Inr (or_else fullText (''No text content found in PDF: '' @ file_name file)))))"

definition extractPdfText :: "Env \<Rightarrow> File \<Rightarrow> string" where
  "extractPdfText env file =
     (case tryExtractPdfText env file of
        Inr text \<Rightarrow> text
      | Inl e \<Rightarrow> ''Error extracting content from PDF: '' @ file_name file)"

subsection \<open>DOCX\<close>

definition tryExtractDocxText :: "Env \<Rightarrow> File \<Rightarrow> error + string" where
  "tryExtractDocxText env file =
     (case external (arrayBuffer file) of
        Inl e \<Rightarrow> Inl e
      | Inr buffer \<Rightarrow> external (extractRawText env buffer))"

definition extractDocxText :: "Env \<Rightarrow> File \<Rightarrow> string" where
  "extractDocxText env file =
     (case tryExtractDocxText env file of
        Inr text \<Rightarrow> text
      | Inl e \<Rightarrow> ''Error extracting content from DOCX: '' @ file_name file)"

subsection \<open>PPTX\<close>

text \<open>
  One match of \<open><a:t[^>]*>([^<]*)<\/a:t>\<close> at the start of a string: the matched text and
  what follows it. Both starred classes stop at the first character they exclude, so no
  other split of the string can match.
\<close>

definition matchTextRun :: "string \<Rightarrow> (string \<times> string) option" where
  "matchTextRun s =
     (if startsWith s ''<a:t'' then
        (case dropWhile (\<lambda>c. c \<noteq> CHR ''>'') (drop 4 s) of
           [] \<Rightarrow> None
         | gt # afterTag \<Rightarrow>
             (let body = takeWhile (\<lambda>c. c \<noteq> CHR ''<'') afterTag;
                  closing = dropWhile (\<lambda>c. c \<noteq> CHR ''<'') afterTag
              in if startsWith closing ''</a:t>''
                 then Some (''<a:t'' @ takeWhile (\<lambda>c. c \<noteq> CHR ''>'') (drop 4 s) @ [gt] @ body @ ''</a:t>'',
                            drop 6 closing)
                 else None))
      else None)"

lemma matchTextRun_shorter:
  "matchTextRun s = Some (m, rest) \<Longrightarrow> length rest < length s"
proof -
  assume a: "matchTextRun s = Some (m, rest)"
  have d: "\<And>P (xs::string). length (dropWhile P xs) \<le> length xs"
    by (simp add: length_dropWhile_le)
  from a obtain gt afterTag where
    st: "startsWith s ''<a:t''" and
    tag: "dropWhile (\<lambda>c. c \<noteq> CHR ''>'') (drop 4 s) = gt # afterTag" and
    r: "rest = drop 6 (dropWhile (\<lambda>c. c \<noteq> CHR ''<'') afterTag)"
    by (auto simp: matchTextRun_def Let_def split: if_splits list.splits)
  have "length (gt # afterTag) \<le> length (drop 4 s)"
    using d [of "\<lambda>c. c \<noteq> CHR ''>''" "drop 4 s"] tag by simp
  then have 1: "length afterTag < length s" by simp
  have "length rest \<le> length afterTag"
    using d [of "\<lambda>c. c \<noteq> CHR ''<''" afterTag] r by simp
  with 1 show ?thesis by simp
qed

text \<open>\<open>content.match(/.../g)\<close>: every match, scanning from the left.\<close>

function matchAll :: "string \<Rightarrow> string list" where
  "matchAll [] = []"
| "matchAll (c # cs) =
     (case matchTextRun (c # cs) of
        Some (m, rest) \<Rightarrow> m # matchAll rest
      | None \<Rightarrow> matchAll cs)"
  by pat_completeness auto
termination
proof (relation "measure length")
  show "wf (measure length)" by simp
next
  fix c :: char and cs x2 x y
  assume "matchTextRun (c # cs) = Some x2" "(x, y) = x2"
  then have "matchTextRun (c # cs) = Some (x, y)" by simp
  then show "(y, c # cs) \<in> measure length"
    using matchTextRun_shorter by fastforce
next
  fix c :: char and cs
  show "(cs, c # cs) \<in> measure length" by simp
qed

text \<open>\<open>match.replace(/<[^>]*>/g, '')\<close>: every tag removed.\<close>

function stripTags :: "string \<Rightarrow> string" where
  "stripTags [] = []"
| "stripTags (c # cs) =
     (if c = CHR ''<'' then
        (case dropWhile (\<lambda>d. d \<noteq> CHR ''>'') cs of
           [] \<Rightarrow> c # stripTags cs
         | gt # rest \<Rightarrow> stripTags rest)
      else c # stripTags cs)"
  by pat_completeness auto
termination
proof (relation "measure length")
  show "wf (measure length)" by simp
next
  fix c :: char and cs
  show "(cs, c # cs) \<in> measure length" by simp
next
  fix c :: char and cs gt rest
  assume "dropWhile (\<lambda>d. d \<noteq> CHR ''>'') cs = gt # rest"
  then have "length (gt # rest) \<le> length cs"
    using length_dropWhile_le [of "\<lambda>d. d \<noteq> CHR ''>''" cs] by simp
  then show "(rest, c # cs) \<in> measure length" by simp
next
  fix c :: char and cs
  show "(cs, c # cs) \<in> measure length" by simp
qed

definition isSlideFile :: "string \<Rightarrow> bool" where
  "isSlideFile n = (startsWith n ''ppt/slides/slide'' \<and> endsWith n ''.xml'')"

text \<open>
  The loop over the slide files, \<open>fullText\<close> its accumulator; an entry of the archive is
  its name and the outcome of \<open>asText()\<close>.
\<close>

fun pptxSlides :: "(string \<times> string external) list \<Rightarrow> string \<Rightarrow> error + string" where
  "pptxSlides [] fullText = Inr fullText"
| "pptxSlides ((slideFile, asText) # rest) fullText =
     (case external asText of
        Inl e \<Rightarrow> Inl e
      | Inr xml \<Rightarrow>
          (case matchAll xml of
             [] \<Rightarrow> pptxSlides rest fullText
           | m # ms \<Rightarrow>
               pptxSlides rest (fullText @ join '' '' (map stripTags (m # ms)) @ newline)))"

definition tryExtractPptxText :: "Env \<Rightarrow> File \<Rightarrow> error + string" where
  "tryExtractPptxText env file =
     (case external (arrayBuffer file) of
        Inl e \<Rightarrow> Inl e
      | Inr buffer \<Rightarrow>
          (case external (unzip env buffer) of
             Inl e \<Rightarrow> Inl e
           | Inr files \<Rightarrow>
               (case pptxSlides (filter (\<lambda>entry. isSlideFile (fst entry)) files) [] of
                  Inl e \<Rightarrow> Inl e
                | Inr fullText \<Rightarrow>
                    Inr (or_else fullText (''Unable to extract readable text from: '' @ file_name file)))))"

definition extractPptxText :: "Env \<Rightarrow> File \<Rightarrow> string" where
  "extractPptxText env file =
     (case tryExtractPptxText env file of
        Inr text \<Rightarrow> text
      | Inl e \<Rightarrow> ''Error extracting content from PPTX: '' @ file_name file)"

section \<open>The chat service (openaiService.ts)\<close>

text \<open>
  \<open>client\<close> holds the API key the completion client was created with, or \<open>None\<close> for
  \<open>null\<close>.
\<close>

record OpenAIService =
  client :: "string option"
  fileContents :: "ExtractedFile list"
  systemInstructions :: string
  svc_vectorStore :: VectorStoreService

text \<open>The constructor: \<open>if (apiKey)\<close> holds for a key that is given and not empty.\<close>

definition newOpenAIService :: "string option \<Rightarrow> OpenAIService" where
  "newOpenAIService apiKey =
     (case apiKey of
        None \<Rightarrow>
          \<lparr>client = None, fileContents = [], systemInstructions = [],
           svc_vectorStore = newVectorStoreService\<rparr>
      | Some key \<Rightarrow>
          (if key = [] then
             \<lparr>client = None, fileContents = [], systemInstructions = [],
              svc_vectorStore = newVectorStoreService\<rparr>
           else
             \<lparr>client = Some key, fileContents = [], systemInstructions = [],
              svc_vectorStore = initialize key newVectorStoreService\<rparr>))"

definition setApiKey :: "string \<Rightarrow> OpenAIService \<Rightarrow> OpenAIService" where
  "setApiKey apiKey st =
     st\<lparr>client := Some apiKey, svc_vectorStore := initialize apiKey (svc_vectorStore st)\<rparr>"

subsection \<open>uploadFiles\<close>

text \<open>
  The function mapped over the files: the promise of one file, which rejects only in the
  plain-text branch, when the reader reports an error.
\<close>

definition readFile :: "Env \<Rightarrow> UploadedFile \<Rightarrow> error + ExtractedFile" where
  "readFile env file =
     (if file_type (uf_file file) = ''application/pdf'' then
        Inr \<lparr>name = uf_name file, file_content = extractPdfText env (uf_file file)\<rparr>
      else if file_type (uf_file file) =
          ''application/vnd.openxmlformats-officedocument.wordprocessingml.document'' then
        Inr \<lparr>name = uf_name file, file_content = extractDocxText env (uf_file file)\<rparr>
      else if file_type (uf_file file) =
          ''application/vnd.openxmlformats-officedocument.presentationml.presentation'' then
        Inr \<lparr>name = uf_name file, file_content = extractPptxText env (uf_file file)\<rparr>
      else if file_type (uf_file file) = ''text/plain'' \<or> endsWith (file_name (uf_file file)) ''.py'' then
        (case readAsText (uf_file file) of
           Inl why \<Rightarrow> Inl (Error ''Failed to read file'')
         | Inr result \<Rightarrow>
             Inr \<lparr>name = uf_name file,
                  file_content = (case result of None \<Rightarrow> [] | Some text \<Rightarrow> or_else text [])\<rparr>)
      else
        Inr \<lparr>name = uf_name file, file_content = ''Unsupported file type: '' @ uf_name file\<rparr>)"

text \<open>
  \<open>Promise.all\<close>: the values in order, or a rejection. Every rejection of \<open>readFile\<close>
  carries the same error, so which of several comes first makes no difference.
\<close>

fun promiseAll :: "(error + 'a) list \<Rightarrow> error + 'a list" where
  "promiseAll [] = Inr []"
| "promiseAll (p # ps) =
     (case p of
        Inl e \<Rightarrow> Inl e
      | Inr v \<Rightarrow> (case promiseAll ps of Inl e \<Rightarrow> Inl e | Inr vs \<Rightarrow> Inr (v # vs)))"

text \<open>
  The service after the call and what the call's promise settles to. The \<open>catch\<close> block
  logs and rethrows; the file contents are pushed before the documents are indexed.
\<close>

definition uploadFiles ::
  "Env \<Rightarrow> OpenAIService \<Rightarrow> UploadedFile list \<Rightarrow> OpenAIService \<times> (error + unit)" where
  "uploadFiles env st files =
     (case client st of
        None \<Rightarrow> (st, Inl (Error ''OpenAI client not initialized''))
      | Some c \<Rightarrow>
          (case promiseAll (map (readFile env) files) of
             Inl e \<Rightarrow> (st, Inl e)
           | Inr extractedFiles \<Rightarrow>
               (let st1 = st\<lparr>fileContents := fileContents st @ extractedFiles\<rparr>
                in if isInitialized (svc_vectorStore st1) then
                     (case addDocuments env (svc_vectorStore st1) extractedFiles of
                        Inl e \<Rightarrow> (st1, Inl e)
                      | Inr vs \<Rightarrow> (st1\<lparr>svc_vectorStore := vs\<rparr>, Inr ()))
                   else (st1, Inr ()))))"

definition createAssistant :: "string \<Rightarrow> OpenAIService \<Rightarrow> OpenAIService" where
  "createAssistant instructions st = st\<lparr>systemInstructions := instructions\<rparr>"

definition updateSystemInstructions :: "string \<Rightarrow> OpenAIService \<Rightarrow> OpenAIService" where
  "updateSystemInstructions instructions st = st\<lparr>systemInstructions := instructions\<rparr>"

subsection \<open>sendMessage\<close>

definition sectionSeparator :: string where
  "sectionSeparator = newline @ newline @ ''---'' @ newline @ newline"

definition chunkSection :: "DocumentChunk \<Rightarrow> string" where
  "chunkSection chunk =
     ''=== '' @ fileName (metadata chunk) @ '' (chunk '' @
     show_nat (chunkIndex (metadata chunk) + 1) @ ''/'' @
     show_nat (totalChunks (metadata chunk)) @ '') ==='' @ newline @ content chunk"

definition semanticContext :: "DocumentChunk list \<Rightarrow> string" where
  "semanticContext relevantChunks = join sectionSeparator (map chunkSection relevantChunks)"

definition fileSection :: "ExtractedFile \<Rightarrow> string" where
  "fileSection file = ''=== '' @ name file @ '' ==='' @ newline @ file_content file"

definition fullContext :: "ExtractedFile list \<Rightarrow> string" where
  "fullContext files = join sectionSeparator (map fileSection files)"

definition systemPrompt :: "string \<Rightarrow> string \<Rightarrow> string" where
  "systemPrompt instructions context =
     instructions @ newline @ newline @
     ''Here are the relevant document sections for answering the user's question:'' @
     newline @ newline @ context @ newline @ newline @
     ''Please answer the question based on this content. If the information is not available in the provided context, say so clearly.''"

definition completionRequest :: "string \<Rightarrow> string \<Rightarrow> string \<Rightarrow> ChatRequest" where
  "completionRequest instructions context userMessage =
     \<lparr>model = ''gpt-4.1-2025-04-14'',
      messages = [(System, systemPrompt instructions context), (User, userMessage)],
      max_tokens = 800,
      temperature = 7 / 10\<rparr>"

text \<open>\<open>response.choices[0]?.message?.content || '...'\<close>.\<close>

definition noResponse :: string where
  "noResponse = ''I apologize, but I was unable to generate a response.''"

definition firstContent :: "Choice list \<Rightarrow> string" where
  "firstContent choices =
     (case choices of
        [] \<Rightarrow> noResponse
      | choice # others \<Rightarrow>
          (case message choice of
             None \<Rightarrow> noResponse
           | Some None \<Rightarrow> noResponse
           | Some (Some text) \<Rightarrow> or_else text noResponse))"

text \<open>The chunks the context is composed from, when the index is in use.\<close>

definition retrieveChunks :: "Env \<Rightarrow> OpenAIService \<Rightarrow> string \<Rightarrow> error + DocumentChunk list" where
  "retrieveChunks env st userMessage = searchSimilar env (svc_vectorStore st) userMessage 6"

definition composeContext :: "Env \<Rightarrow> OpenAIService \<Rightarrow> string \<Rightarrow> error + string" where
  "composeContext env st userMessage =
     (if isInitialized (svc_vectorStore st) then
        (case retrieveChunks env st userMessage of
           Inl e \<Rightarrow> Inl e
         | Inr relevantChunks \<Rightarrow> Inr (semanticContext relevantChunks))
      else Inr (fullContext (fileContents st)))"

text \<open>
  The body of the \<open>try\<close> block, whose \<open>catch\<close> logs and rethrows: the completion requests
  issued, and what the promise settles to.
\<close>

definition trySendMessage ::
  "Env \<Rightarrow> OpenAIService \<Rightarrow> string \<Rightarrow> ChatRequest list \<times> (error + string)" where
  "trySendMessage env st userMessage =
     (case composeContext env st userMessage of
        Inl e \<Rightarrow> ([], Inl e)
      | Inr context \<Rightarrow>
          (let request = completionRequest (systemInstructions st) context userMessage
           in case external (createCompletion env request) of
                Inl e \<Rightarrow> ([request], Inl e)
              | Inr choices \<Rightarrow> ([request], Inr (firstContent choices))))"

definition sendMessage ::
  "Env \<Rightarrow> OpenAIService \<Rightarrow> string \<Rightarrow> ChatRequest list \<times> (error + string)" where
  "sendMessage env st userMessage =
     (case client st of
        None \<Rightarrow> ([], Inl (Error ''OpenAI client not initialized''))
      | Some c \<Rightarrow>
          (if fileContents st = [] then
             ([], Inl (Error ''No files uploaded. Please upload documents first.''))
           else trySendMessage env st userMessage))"

definition isReady :: "OpenAIService \<Rightarrow> bool" where
  "isReady st = (client st \<noteq> None \<and> 0 < length (fileContents st))"

definition hasFiles :: "OpenAIService \<Rightarrow> bool" where
  "hasFiles st = (0 < length (fileContents st))"

definition clearFiles :: "OpenAIService \<Rightarrow> OpenAIService" where
  "clearFiles st = st\<lparr>fileContents := [], svc_vectorStore := clear (svc_vectorStore st)\<rparr>"

definition getFileContents :: "OpenAIService \<Rightarrow> ExtractedFile list" where
  "getFileContents st = fileContents st"

section \<open>The page and the chat interface\<close>


datatype MessageRole = RoleUser | RoleAssistant

text \<open>A chat message; the timestamp is the time \<open>new Date()\<close> read.\<close>

record Message =
  msg_id :: string
  msg_role :: MessageRole
  msg_content :: string
  msg_timestamp :: nat

record ChatInterface =
  chat_messages :: "Message list"
  chat_input :: string

definition greeting :: string where
  "greeting = ''Hello! I'm ready to help you analyze your uploaded documents. Ask me anything about the content you've shared.''"

definition sendFailed :: string where
  "sendFailed = ''I apologize, but I encountered an error while processing your message. Please try again.''"

text \<open>The state the component mounts with.\<close>

definition newChatInterface :: "nat \<Rightarrow> ChatInterface" where
  "newChatInterface now =
     \<lparr>chat_messages =
        [\<lparr>msg_id = ''1'', msg_role = RoleAssistant, msg_content = greeting, msg_timestamp = now\<rparr>],
      chat_input = []\<rparr>"

text \<open>
  \<open>String.prototype.trim\<close>: white space and line terminators removed at both ends (the
  ones a one-byte character can hold).
\<close>

definition isWhiteSpace :: "char \<Rightarrow> bool" where
  "isWhiteSpace c =
     (c \<in> set [CHR 0x09, CHR 0x0A, CHR 0x0B, CHR 0x0C, CHR 0x0D, CHR 0x20, CHR 0xA0])"

definition trim :: "string \<Rightarrow> string" where
  "trim s = rev (dropWhile isWhiteSpace (rev (dropWhile isWhiteSpace s)))"

text \<open>
  \<open>handleSend\<close> up to its \<open>await\<close>: the guard, the user message appended, the input
  cleared, and the text \<open>onSendMessage\<close> is called with (\<open>None\<close> on the early return).
  \<open>uuid\<close> is what \<open>crypto.randomUUID()\<close> returned and \<open>now\<close> the time.
\<close>

definition handleSendStart ::
  "bool \<Rightarrow> string \<Rightarrow> nat \<Rightarrow> ChatInterface \<Rightarrow> ChatInterface \<times> string option" where
  "handleSendStart isLoading uuid now st =
     (if trim (chat_input st) = [] \<or> isLoading then (st, None)
      else
        (st\<lparr>chat_messages := chat_messages st @
              [\<lparr>msg_id = uuid, msg_role = RoleUser, msg_content = trim (chat_input st),
                msg_timestamp = now\<rparr>],
            chat_input := []\<rparr>,
         Some (trim (chat_input st))))"

text \<open>
  \<open>handleSend\<close> after its \<open>await\<close>: the response appended, or in the \<open>catch\<close> block the
  fallback message. Each \<open>setMessages\<close> appends to the list as it is at that moment.
\<close>

definition handleSendSettle ::
  "error + string \<Rightarrow> string \<Rightarrow> nat \<Rightarrow> ChatInterface \<Rightarrow> ChatInterface" where
  "handleSendSettle outcome uuid now st =
     (case outcome of
        Inr response \<Rightarrow>
          st\<lparr>chat_messages := chat_messages st @
            [\<lparr>msg_id = uuid, msg_role = RoleAssistant, msg_content = response,
              msg_timestamp = now\<rparr>]\<rparr>
      | Inl e \<Rightarrow>
          st\<lparr>chat_messages := chat_messages st @
            [\<lparr>msg_id = uuid, msg_role = RoleAssistant, msg_content = sendFailed,
              msg_timestamp = now\<rparr>]\<rparr>)"

text \<open>
  One whole call of \<open>handleSend\<close> with nothing in between: what its promise settles to.
  Every call that can throw stands inside the \<open>try\<close> block.
\<close>

definition handleSend ::
  "(string \<Rightarrow> error + string) \<Rightarrow> bool \<Rightarrow> string \<Rightarrow> nat \<Rightarrow> string \<Rightarrow> nat \<Rightarrow>
   ChatInterface \<Rightarrow> error + ChatInterface" where
  "handleSend onSendMessage isLoading uuid1 now1 uuid2 now2 st =
     (case handleSendStart isLoading uuid1 now1 st of
        (st1, None) \<Rightarrow> Inr st1
      | (st1, Some text) \<Rightarrow> Inr (handleSendSettle (onSendMessage text) uuid2 now2 st1))"

text \<open>
  What can happen to a mounted chat interface: the input changes, a key is pressed in the
  input, the send button is clicked, a pending call of \<open>onSendMessage\<close> settles. A key
  press and a click carry the \<open>isLoading\<close> flag the page passes at that moment, the
  identifier drawn and the time; a settled call carries its outcome.
\<close>

datatype ChatEvent =
    InputChange string
  | KeyPress string bool bool string nat
  | SendClick bool string nat
  | Settled "error + string" string nat

definition handleKeyPress ::
  "string \<Rightarrow> bool \<Rightarrow> bool \<Rightarrow> string \<Rightarrow> nat \<Rightarrow> ChatInterface \<Rightarrow> ChatInterface" where
  "handleKeyPress key shiftKey isLoading uuid now st =
     (if key = ''Enter'' \<and> \<not> shiftKey then fst (handleSendStart isLoading uuid now st) else st)"

fun chatStep :: "ChatEvent \<Rightarrow> ChatInterface \<Rightarrow> ChatInterface" where
  "chatStep (InputChange v) st = st\<lparr>chat_input := v\<rparr>"
| "chatStep (KeyPress key shiftKey isLoading uuid now) st =
     handleKeyPress key shiftKey isLoading uuid now st"
| "chatStep (SendClick isLoading uuid now) st = fst (handleSendStart isLoading uuid now st)"
| "chatStep (Settled outcome uuid now) st = handleSendSettle outcome uuid now st"

fun chatRun :: "ChatEvent list \<Rightarrow> ChatInterface \<Rightarrow> ChatInterface" where
  "chatRun [] st = st"
| "chatRun (ev # evs) st = chatRun evs (chatStep ev st)"

subsection \<open>The page\<close>

definition DEFAULT_INSTRUCTIONS :: string where
  "DEFAULT_INSTRUCTIONS =
     ''You are a helpful AI assistant that analyzes documents and answers questions based on their content. '' @
     newline @ newline @
     ''Guidelines:'' @ newline @
     ''- Always base your answers on the provided documents'' @ newline @
     ''- If information isn't available in the documents, clearly state that'' @ newline @
     ''- Provide detailed and accurate responses'' @ newline @
     ''- Include relevant quotes or references when appropriate'' @ newline @
     ''- Be concise but comprehensive in your explanations''"

text \<open>
  The state of the page: its six \<open>useState\<close> cells, and the state of the chat interface
  it has mounted (\<open>None\<close> when no chat interface is mounted). The service is one mutable
  object; the page's cell holds it as it is after the last call.
\<close>

record Page =
  apiKey :: string
  uploadedFiles :: "UploadedFile list"
  page_systemInstructions :: string
  openaiService :: "OpenAIService option"
  isLoading :: bool
  activeTab :: string
  chatInterface :: "ChatInterface option"

text \<open>The page as it mounts; \<open>savedApiKey\<close> is what local storage holds.\<close>

definition newPage :: "string option \<Rightarrow> Page" where
  "newPage savedApiKey =
     (case savedApiKey of
        None \<Rightarrow>
          \<lparr>apiKey = [], uploadedFiles = [], page_systemInstructions = DEFAULT_INSTRUCTIONS,
           openaiService = None, isLoading = False, activeTab = ''upload'', chatInterface = None\<rparr>
      | Some key \<Rightarrow>
          (if key = [] then
             \<lparr>apiKey = [], uploadedFiles = [], page_systemInstructions = DEFAULT_INSTRUCTIONS,
              openaiService = None, isLoading = False, activeTab = ''upload'', chatInterface = None\<rparr>
           else
             \<lparr>apiKey = key, uploadedFiles = [], page_systemInstructions = DEFAULT_INSTRUCTIONS,
              openaiService = Some (newOpenAIService (Some key)), isLoading = False,
              activeTab = ''upload'', chatInterface = None\<rparr>))"

definition handleApiKeySet :: "string \<Rightarrow> Page \<Rightarrow> Page" where
  "handleApiKeySet key p = p\<lparr>apiKey := key, openaiService := Some (newOpenAIService (Some key))\<rparr>"

text \<open>
  \<open>handleFilesChange\<close>, from its call to the end of its \<open>finally\<close> block. Both outcomes
  of \<open>uploadFiles\<close> are caught here and shown as a notification.
\<close>

definition handleFilesChange :: "Env \<Rightarrow> UploadedFile list \<Rightarrow> Page \<Rightarrow> Page" where
  "handleFilesChange env files p =
     (if 0 < length files then
        (case openaiService p of
           None \<Rightarrow> p\<lparr>uploadedFiles := files\<rparr>
         | Some service \<Rightarrow>
             (case uploadFiles env service files of
                (service1, Inl e) \<Rightarrow>
                  p\<lparr>uploadedFiles := files, openaiService := Some service1, isLoading := False\<rparr>
              | (service1, Inr done) \<Rightarrow>
                  p\<lparr>uploadedFiles := files,
                    openaiService := Some (createAssistant (page_systemInstructions p) service1),
                    activeTab := ''chat'', isLoading := False\<rparr>))
      else p\<lparr>uploadedFiles := files\<rparr>)"

definition handleSystemInstructionsChange :: "string \<Rightarrow> Page \<Rightarrow> Page" where
  "handleSystemInstructionsChange instructions p =
     (case openaiService p of
        None \<Rightarrow> p\<lparr>page_systemInstructions := instructions\<rparr>
      | Some service \<Rightarrow>
          (if isReady service then
             p\<lparr>page_systemInstructions := instructions,
               openaiService := Some (updateSystemInstructions instructions service)\<rparr>
           else p\<lparr>page_systemInstructions := instructions\<rparr>))"

text \<open>The file lists that the upload component hands to \<open>onFilesChange\<close>.\<close>

definition onDrop :: "UploadedFile list \<Rightarrow> UploadedFile list \<Rightarrow> UploadedFile list" where
  "onDrop uploaded newFiles = uploaded @ newFiles"

definition removeFile :: "string \<Rightarrow> UploadedFile list \<Rightarrow> UploadedFile list" where
  "removeFile fileId uploaded = filter (\<lambda>file. uf_id file \<noteq> fileId) uploaded"

text \<open>
  What the page renders: the chat interface stands in the chat tab, in place of a notice,
  when a file is uploaded, and the tabs stand on the page when an API key is set. The tabs
  component is not part of the sources: \<open>keepMounted\<close> says whether it keeps the content
  of a tab that is not active mounted.
\<close>

definition chatRendered :: "bool \<Rightarrow> Page \<Rightarrow> bool" where
  "chatRendered keepMounted p =
     (apiKey p \<noteq> [] \<and> (keepMounted \<or> activeTab p = ''chat'') \<and>
      \<not> (length (uploadedFiles p) = 0))"

text \<open>
  What React does with the chat interface after the page's state has changed: a component
  that is rendered again keeps its state, one that is rendered no longer is unmounted and
  its state is discarded, and one that is rendered anew is mounted in its initial state.
\<close>

definition commit :: "bool \<Rightarrow> nat \<Rightarrow> Page \<Rightarrow> Page" where
  "commit keepMounted now p =
     (if chatRendered keepMounted p then
        (case chatInterface p of
           None \<Rightarrow> p\<lparr>chatInterface := Some (newChatInterface now)\<rparr>
         | Some chat \<Rightarrow> p)
      else p\<lparr>chatInterface := None\<rparr>)"

text \<open>
  What can happen on the page: an API key is submitted, the list of uploaded files
  changes (a drop or a removal), the instructions change, a tab is chosen, or something
  happens in the mounted chat interface.
\<close>

datatype PageEvent =
    ApiKeySet string
  | FilesChange Env "UploadedFile list"
  | InstructionsChange string
  | TabChange string
  | Chat ChatEvent

fun pageHandle :: "PageEvent \<Rightarrow> Page \<Rightarrow> Page" where
  "pageHandle (ApiKeySet key) p = handleApiKeySet key p"
| "pageHandle (FilesChange env files) p = handleFilesChange env files p"
| "pageHandle (InstructionsChange instructions) p = handleSystemInstructionsChange instructions p"
| "pageHandle (TabChange tab) p = p\<lparr>activeTab := tab\<rparr>"
| "pageHandle (Chat event) p =
     (case chatInterface p of
        None \<Rightarrow> p
      | Some chat \<Rightarrow> p\<lparr>chatInterface := Some (chatStep event chat)\<rparr>)"

definition pageStep :: "bool \<Rightarrow> nat \<Rightarrow> PageEvent \<Rightarrow> Page \<Rightarrow> Page" where
  "pageStep keepMounted now event p = commit keepMounted now (pageHandle event p)"

fun pageRun :: "bool \<Rightarrow> (nat \<times> PageEvent) list \<Rightarrow> Page \<Rightarrow> Page" where
  "pageRun keepMounted [] p = p"
| "pageRun keepMounted ((now, event) # rest) p =
     pageRun keepMounted rest (pageStep keepMounted now event p)"

section \<open>Example inputs\<close>

text \<open>
  An environment in which every external call succeeds, one in which every external call
  fails, and a small index.
\<close>

definition exampleEnv :: Env where
  "exampleEnv =
     \<lparr>embedText = (\<lambda>t. Inr [of_nat (length t)]),
      similarity = (\<lambda>q v. - \<bar>sum_list q - sum_list v\<bar>),
      getDocument = (\<lambda>buffer. Inr [Inr [''Hello'', ''PDF'']]),
      extractRawText = (\<lambda>buffer. Inr []),
      unzip = (\<lambda>buffer. Inr [(''ppt/slides/slide1.xml'', Inr ''<a:t>Hi</a:t>'')]),
      createCompletion = (\<lambda>request. Inr [\<lparr>message = Some (Some ''An answer'')\<rparr>])\<rparr>"

definition offlineEnv :: Env where
  "offlineEnv =
     \<lparr>embedText = (\<lambda>t. Inl ''offline''),
      similarity = (\<lambda>q v. 0),
      getDocument = (\<lambda>buffer. Inl ''offline''),
      extractRawText = (\<lambda>buffer. Inl ''offline''),
      unzip = (\<lambda>buffer. Inl ''offline''),
      createCompletion = (\<lambda>request. Inl ''offline'')\<rparr>"

definition exampleDocuments :: "ExtractedFile list" where
  "exampleDocuments =
     [\<lparr>name = ''a.txt'', file_content = ''hello''\<rparr>,
      \<lparr>name = ''b.txt'', file_content = ''hi''\<rparr>,
      \<lparr>name = ''c.txt'', file_content = ''good day''\<rparr>]"

definition emptyIndex :: VectorStoreService where
  "emptyIndex = initialize ''sk-test'' newVectorStoreService"

definition exampleIndex :: VectorStoreService where
  "exampleIndex =
     \<lparr>vectorStore = Some
        [\<lparr>mv_document = \<lparr>pageContent = ''hello'',
            doc_metadata = \<lparr>fileName = ''a.txt'', chunkIndex = 0, totalChunks = 1\<rparr>\<rparr>,
          mv_embedding = [5]\<rparr>,
         \<lparr>mv_document = \<lparr>pageContent = ''hi'',
            doc_metadata = \<lparr>fileName = ''b.txt'', chunkIndex = 0, totalChunks = 1\<rparr>\<rparr>,
          mv_embedding = [2]\<rparr>,
         \<lparr>mv_document = \<lparr>pageContent = ''good day'',
            doc_metadata = \<lparr>fileName = ''c.txt'', chunkIndex = 0, totalChunks = 1\<rparr>\<rparr>,
          mv_embedding = [8]\<rparr>],
      embeddings = Some ''sk-test'',
      textSplitter = \<lparr>chunkSize = 1000, chunkOverlap = 200\<rparr>\<rparr>"

definition exampleService :: OpenAIService where
  "exampleService =
     \<lparr>client = Some ''sk-test'', fileContents = exampleDocuments,
      systemInstructions = ''Be brief.'', svc_vectorStore = exampleIndex\<rparr>"

definition longDocument :: ExtractedFile where
  "longDocument = \<lparr>name = ''long.txt'', file_content = replicate 1100 CHR ''a''\<rparr>"

definition completionDownEnv :: Env where
  "completionDownEnv = exampleEnv\<lparr>createCompletion := (\<lambda>request. Inl ''rate limited'')\<rparr>"

text \<open>Uploaded files: readable and unreadable ones.\<close>

definition pdfFile :: UploadedFile where
  "pdfFile =
     \<lparr>uf_id = ''f1'', uf_name = ''report.pdf'', uf_size = 3, uf_type = ''application/pdf'',
      uf_file = \<lparr>file_name = ''report.pdf'', file_type = ''application/pdf'',
                 arrayBuffer = Inr [1, 2, 3], readAsText = Inr (Some ''%PDF'')\<rparr>\<rparr>"

definition brokenPdfFile :: UploadedFile where
  "brokenPdfFile =
     \<lparr>uf_id = ''f2'', uf_name = ''broken.pdf'', uf_size = 3, uf_type = ''application/pdf'',
      uf_file = \<lparr>file_name = ''broken.pdf'', file_type = ''application/pdf'',
                 arrayBuffer = Inl ''NotReadableError'', readAsText = Inl ''NotReadableError''\<rparr>\<rparr>"

definition notesFile :: UploadedFile where
  "notesFile =
     \<lparr>uf_id = ''f3'', uf_name = ''notes.txt'', uf_size = 5, uf_type = ''text/plain'',
      uf_file = \<lparr>file_name = ''notes.txt'', file_type = ''text/plain'',
                 arrayBuffer = Inr [104, 101, 108, 108, 111], readAsText = Inr (Some ''hello'')\<rparr>\<rparr>"

definition emptyTextFile :: UploadedFile where
  "emptyTextFile =
     \<lparr>uf_id = ''f4'', uf_name = ''empty.txt'', uf_size = 0, uf_type = ''text/plain'',
      uf_file = \<lparr>file_name = ''empty.txt'', file_type = ''text/plain'',
                 arrayBuffer = Inr [], readAsText = Inr (Some [])\<rparr>\<rparr>"

definition unreadableTextFile :: UploadedFile where
  "unreadableTextFile =
     \<lparr>uf_id = ''f5'', uf_name = ''gone.txt'', uf_size = 9, uf_type = ''text/plain'',
      uf_file = \<lparr>file_name = ''gone.txt'', file_type = ''text/plain'',
                 arrayBuffer = Inl ''NotFoundError'', readAsText = Inl ''NotFoundError''\<rparr>\<rparr>"

definition pptxFile :: UploadedFile where
  "pptxFile =
     \<lparr>uf_id = ''f7'', uf_name = ''slides.pptx'', uf_size = 2,
      uf_type = ''application/vnd.openxmlformats-officedocument.presentationml.presentation'',
      uf_file = \<lparr>file_name = ''slides.pptx'',
                 file_type = ''application/vnd.openxmlformats-officedocument.presentationml.presentation'',
                 arrayBuffer = Inr [80, 75], readAsText = Inr (Some ''PK'')\<rparr>\<rparr>"

definition docxFile :: UploadedFile where
  "docxFile =
     \<lparr>uf_id = ''f6'', uf_name = ''blank.docx'', uf_size = 2,
      uf_type = ''application/vnd.openxmlformats-officedocument.wordprocessingml.document'',
      uf_file = \<lparr>file_name = ''blank.docx'',
                 file_type = ''application/vnd.openxmlformats-officedocument.wordprocessingml.document'',
                 arrayBuffer = Inr [80, 75], readAsText = Inr (Some ''PK'')\<rparr>\<rparr>"


definition exampleEvents :: "ChatEvent list" where
  "exampleEvents =
     [InputChange '' hey '', SendClick False ''u1'' 1, InputChange ''more'',
      KeyPress ''Enter'' False False ''u3'' 3, Settled (Inr ''An answer'') ''u2'' 2,
      Settled (Inl (External ''offline'')) ''u4'' 4]"

text \<open>A page on which a file was uploaded and a question answered.\<close>

definition chattedInterface :: ChatInterface where
  "chattedInterface =
     \<lparr>chat_messages =
        [\<lparr>msg_id = ''1'', msg_role = RoleAssistant, msg_content = greeting, msg_timestamp = 1\<rparr>,
         \<lparr>msg_id = ''u1'', msg_role = RoleUser, msg_content = ''hey'', msg_timestamp = 3\<rparr>,
         \<lparr>msg_id = ''u2'', msg_role = RoleAssistant, msg_content = ''An answer'', msg_timestamp = 4\<rparr>],
      chat_input = []\<rparr>"

definition chattedService :: OpenAIService where
  "chattedService =
     \<lparr>client = Some ''sk-test'',
      fileContents = [\<lparr>name = ''notes.txt'', file_content = ''hello''\<rparr>],
      systemInstructions = DEFAULT_INSTRUCTIONS,
      svc_vectorStore =
        \<lparr>vectorStore = Some
           [\<lparr>mv_document = \<lparr>pageContent = ''hello'',
               doc_metadata = \<lparr>fileName = ''notes.txt'', chunkIndex = 0, totalChunks = 1\<rparr>\<rparr>,
             mv_embedding = [5]\<rparr>],
         embeddings = Some ''sk-test'',
         textSplitter = \<lparr>chunkSize = 1000, chunkOverlap = 200\<rparr>\<rparr>\<rparr>"

definition chattedPage :: Page where
  "chattedPage =
     \<lparr>apiKey = ''sk-test'', uploadedFiles = [notesFile],
      page_systemInstructions = DEFAULT_INSTRUCTIONS,
      openaiService = Some chattedService,
      isLoading = False, activeTab = ''chat'', chatInterface = Some chattedInterface\<rparr>"

definition keyedPage :: Page where
  "keyedPage =
     \<lparr>apiKey = ''sk-test'', uploadedFiles = [], page_systemInstructions = DEFAULT_INSTRUCTIONS,
      openaiService = Some (newOpenAIService (Some ''sk-test'')), isLoading = False,
      activeTab = ''upload'', chatInterface = None\<rparr>"

section \<open>The vector store: what is stored and what a search returns\<close>

lemma collectDocs_concat:
  "collectDocs sp documents allDocs = allDocs @ concat (map (docsWithMetadata sp) documents)"
  by (induction documents arbitrary: allDocs) simp_all


lemma embedDocuments_length:
  "embedDocuments env ts = Inr vs \<Longrightarrow> length vs = length ts"
  by (induction ts arbitrary: vs) (auto split: sum.splits)


lemma store_addDocuments_appends:
  assumes "store_addDocuments env store docs = Inr store'"
  shows "\<exists>new. store' = store @ new \<and> map mv_document new = docs"
proof -
  from assms obtain vs where e: "embedDocuments env (map pageContent docs) = Inr vs"
    and s: "store' = store @ map (\<lambda>(d, v). \<lparr>mv_document = d, mv_embedding = v\<rparr>) (zip docs vs)"
    by (auto simp: store_addDocuments_def split: sum.splits)
  from e have len: "length vs = length docs"
    using embedDocuments_length by fastforce
  have "map mv_document (map (\<lambda>(d, v). \<lparr>mv_document = d, mv_embedding = v\<rparr>) (zip docs vs)) = map fst (zip docs vs)"
    by (simp add: case_prod_unfold)
  also have "\<dots> = docs" using len by simp
  finally show ?thesis using s by blast
qed


lemma docsWithMetadata_member:
  assumes "d \<in> set (docsWithMetadata sp doc)"
  shows "fileName (doc_metadata d) = name doc \<and>
         totalChunks (doc_metadata d) = length (createDocuments sp (file_content doc)) \<and>
         chunkIndex (doc_metadata d) < totalChunks (doc_metadata d) \<and>
         pageContent d = createDocuments sp (file_content doc) ! chunkIndex (doc_metadata d)"
proof -
  let ?chunks = "createDocuments sp (file_content doc)"
  from assms obtain i c where ic: "(i, c) \<in> set (enumerate 0 ?chunks)"
    and d: "d = \<lparr>pageContent = c, doc_metadata = \<lparr>fileName = name doc, chunkIndex = i, totalChunks = length ?chunks\<rparr>\<rparr>"
    by (auto simp: docsWithMetadata_def Let_def)
  from ic have "i < length ?chunks" "c = ?chunks ! i"
    by (auto simp: in_set_enumerate_eq)
  with d show ?thesis by simp
qed


lemma search_results_stored:
  assumes "r \<in> set (similaritySearchVectorWithScore env store q k)"
  shows "\<exists>mv\<in>set store. fst r = mv_document mv"
proof -
  let ?scored = "map (\<lambda>mv. (mv_document mv, similarity env q (mv_embedding mv))) store"
  from assms have "r \<in> set (take k (sort_key (\<lambda>(d, s). - s) ?scored))"
    by (simp only: similaritySearchVectorWithScore_def)
  then have "r \<in> set (sort_key (\<lambda>(d, s). - s) ?scored)"
    by (rule in_set_takeD)
  then have "r \<in> set ?scored"
    by (simp only: set_sort)
  then show ?thesis by auto
qed

lemma search_results_length:
  "length (similaritySearchVectorWithScore env store q k) \<le> k"
  by (simp add: similaritySearchVectorWithScore_def)


lemma searchSimilar_from_store:
  assumes "searchSimilar env vs query k = Inr chunks" and "c \<in> set chunks"
  shows "\<exists>store. vectorStore vs = Some store \<and>
           (\<exists>mv\<in>set store. content c = pageContent (mv_document mv) \<and>
                            metadata c = doc_metadata (mv_document mv))"
proof -
  from assms(1) obtain store key q where st: "vectorStore vs = Some store"
    and ch: "chunks = map toChunk (similaritySearchVectorWithScore env store q k)"
    by (auto simp: searchSimilar_def split: option.splits sum.splits)
  from ch assms(2) obtain r where r: "r \<in> set (similaritySearchVectorWithScore env store q k)"
    and c: "c = toChunk r" by auto
  from search_results_stored [OF r]
  obtain mv where mv: "mv \<in> set store" "fst r = mv_document mv" by blast
  from c have "content c = pageContent (fst r) \<and> metadata c = doc_metadata (fst r)"
    by (cases r) (simp add: toChunk_def)
  with mv st show ?thesis by auto
qed


lemma example_addDocuments:
  "addDocuments exampleEnv emptyIndex exampleDocuments = Inr exampleIndex"
  by (simp add: addDocuments_def emptyIndex_def initialize_def newVectorStoreService_def
      exampleDocuments_def exampleIndex_def store_addDocuments_def docsWithMetadata_def
      createDocuments_def exampleEnv_def external_def enumerate_eq_zip upt_rec splitText.simps)

lemma example_search:
  "searchSimilar exampleEnv exampleIndex ''hey'' 2 =
     Inr [\<lparr>content = ''hi'', metadata = \<lparr>fileName = ''b.txt'', chunkIndex = 0, totalChunks = 1\<rparr>\<rparr>,
          \<lparr>content = ''hello'', metadata = \<lparr>fileName = ''a.txt'', chunkIndex = 0, totalChunks = 1\<rparr>\<rparr>]"
  by (simp add: searchSimilar_def exampleIndex_def exampleEnv_def external_def
      similaritySearchVectorWithScore_def toChunk_def)

text \<open>
  Claim C9. Every chunk that \<open>addDocuments\<close> stores carries the name of its source
  document as \<open>fileName\<close>, the number of chunks of that document as \<open>totalChunks\<close> and
  its position among them as \<open>chunkIndex\<close>, so that \<open>chunkIndex < totalChunks\<close>; and every
  chunk that \<open>searchSimilar\<close> returns afterwards is a stored one, its content and its
  metadata unchanged.
\<close>

theorem addDocuments_metadata:
  assumes "addDocuments env vs documents = Inr vs'"
  shows "\<exists>old new. vectorStore vs = Some old \<and> vectorStore vs' = Some (old @ new) \<and>
           map mv_document new = concat (map (docsWithMetadata (textSplitter vs)) documents) \<and>
           (\<forall>mv\<in>set new. \<exists>doc\<in>set documents.
              fileName (doc_metadata (mv_document mv)) = name doc \<and>
              totalChunks (doc_metadata (mv_document mv)) =
                length (createDocuments (textSplitter vs) (file_content doc)) \<and>
              chunkIndex (doc_metadata (mv_document mv)) < totalChunks (doc_metadata (mv_document mv)) \<and>
              pageContent (mv_document mv) =
                createDocuments (textSplitter vs) (file_content doc) !
                  chunkIndex (doc_metadata (mv_document mv))) \<and>
           (\<forall>env' query k chunks. searchSimilar env' vs' query k = Inr chunks \<longrightarrow>
              (\<forall>c\<in>set chunks. \<exists>mv\<in>set (old @ new).
                 content c = pageContent (mv_document mv) \<and>
                 metadata c = doc_metadata (mv_document mv)))"
proof -
  from assms obtain old store' where old: "vectorStore vs = Some old"
    and add: "store_addDocuments env old (collectDocs (textSplitter vs) documents []) = Inr store'"
    and vs': "vs' = vs\<lparr>vectorStore := Some store'\<rparr>"
    by (auto simp: addDocuments_def split: option.splits sum.splits)
  from store_addDocuments_appends [OF add] obtain new where new: "store' = old @ new"
    and docs: "map mv_document new = concat (map (docsWithMetadata (textSplitter vs)) documents)"
    by (auto simp: collectDocs_concat)
  have meta: "\<exists>doc\<in>set documents.
              fileName (doc_metadata (mv_document mv)) = name doc \<and>
              totalChunks (doc_metadata (mv_document mv)) =
                length (createDocuments (textSplitter vs) (file_content doc)) \<and>
              chunkIndex (doc_metadata (mv_document mv)) < totalChunks (doc_metadata (mv_document mv)) \<and>
              pageContent (mv_document mv) =
                createDocuments (textSplitter vs) (file_content doc) !
                  chunkIndex (doc_metadata (mv_document mv))" if "mv \<in> set new" for mv
  proof -
    from that have "mv_document mv \<in> set (map mv_document new)" by simp
    with docs obtain doc where "doc \<in> set documents"
      "mv_document mv \<in> set (docsWithMetadata (textSplitter vs) doc)" by auto
    then show ?thesis using docsWithMetadata_member by blast
  qed
  have search: "\<exists>mv\<in>set (old @ new).
                 content c = pageContent (mv_document mv) \<and>
                 metadata c = doc_metadata (mv_document mv)"
    if "searchSimilar env' vs' query k = Inr chunks" "c \<in> set chunks" for env' query k chunks c
    using searchSimilar_from_store [OF that] vs' new by simp
  from old vs' new docs meta search show ?thesis by (intro exI [of _ old] exI [of _ new]) auto
qed

theorem addDocuments_metadata_witness:
  "addDocuments exampleEnv emptyIndex exampleDocuments = Inr exampleIndex \<and>
   (\<exists>new. vectorStore exampleIndex = Some ([] @ new) \<and>
      map mv_document new = concat (map (docsWithMetadata (textSplitter emptyIndex)) exampleDocuments))"
proof -
  have h: "addDocuments exampleEnv emptyIndex exampleDocuments = Inr exampleIndex"
    by (rule example_addDocuments)
  have e: "vectorStore emptyIndex = Some []"
    by (simp add: emptyIndex_def initialize_def)
  from addDocuments_metadata [OF h] e h show ?thesis by auto
qed

section \<open>Retrieval returns at most k chunks\<close>

lemma searchSimilar_length:
  assumes "searchSimilar env vs query k = Inr chunks"
  shows "length chunks \<le> k"
proof -
  from assms obtain store q where
    "chunks = map toChunk (similaritySearchVectorWithScore env store q k)"
    by (auto simp: searchSimilar_def split: option.splits sum.splits)
  then show ?thesis by (simp add: search_results_length)
qed

lemma trySendMessage_requests:
  assumes "request \<in> set (fst (trySendMessage env st userMessage))"
  shows "\<exists>ctxt. composeContext env st userMessage = Inr ctxt \<and>
           request = completionRequest (systemInstructions st) ctxt userMessage"
  using assms
  by (auto simp: trySendMessage_def Let_def split: sum.splits)

lemma sendMessage_requests:
  assumes "request \<in> set (fst (sendMessage env st userMessage))"
  shows "request \<in> set (fst (trySendMessage env st userMessage))"
  using assms
  by (auto simp: sendMessage_def split: option.splits if_splits)

lemma example_initialized: "isInitialized (svc_vectorStore exampleService)"
  by (simp add: isInitialized_def exampleService_def exampleIndex_def)

lemma example_sendMessage:
  "sendMessage exampleEnv exampleService ''hey'' =
     ([completionRequest ''Be brief.''
         (semanticContext
            [\<lparr>content = ''hi'', metadata = \<lparr>fileName = ''b.txt'', chunkIndex = 0, totalChunks = 1\<rparr>\<rparr>,
             \<lparr>content = ''hello'', metadata = \<lparr>fileName = ''a.txt'', chunkIndex = 0, totalChunks = 1\<rparr>\<rparr>,
             \<lparr>content = ''good day'', metadata = \<lparr>fileName = ''c.txt'', chunkIndex = 0, totalChunks = 1\<rparr>\<rparr>])
         ''hey''],
      Inr ''An answer'')"
  by (simp add: sendMessage_def trySendMessage_def composeContext_def retrieveChunks_def
      isInitialized_def exampleService_def exampleDocuments_def firstContent_def or_else_def
      searchSimilar_def exampleIndex_def exampleEnv_def external_def
      similaritySearchVectorWithScore_def toChunk_def)

text \<open>
  Claim C2. For every query and every bound \<open>k\<close>, the list of chunks \<open>searchSimilar\<close>
  returns has at most \<open>k\<close> elements; and every completion request that \<open>sendMessage\<close>
  issues while the index is in use carries a context composed from the at most 6 chunks
  that \<open>searchSimilar\<close> returned for the message with \<open>k = 6\<close>.
\<close>

theorem searchSimilar_at_most_k:
  "(searchSimilar env vs query k = Inr chunks \<longrightarrow> length chunks \<le> k) \<and>
   (isInitialized (svc_vectorStore st) \<longrightarrow>
      (\<forall>request\<in>set (fst (sendMessage env st userMessage)).
         \<exists>relevantChunks.
           searchSimilar env (svc_vectorStore st) userMessage 6 = Inr relevantChunks \<and>
           length relevantChunks \<le> 6 \<and>
           request = completionRequest (systemInstructions st)
                       (semanticContext relevantChunks) userMessage))"
proof (intro conjI impI ballI)
  assume "searchSimilar env vs query k = Inr chunks"
  then show "length chunks \<le> k" by (rule searchSimilar_length)
next
  fix request
  assume init: "isInitialized (svc_vectorStore st)"
    and "request \<in> set (fst (sendMessage env st userMessage))"
  then have "request \<in> set (fst (trySendMessage env st userMessage))"
    by (simp add: sendMessage_requests)
  then obtain ctxt where c: "composeContext env st userMessage = Inr ctxt"
    and r: "request = completionRequest (systemInstructions st) ctxt userMessage"
    using trySendMessage_requests by blast
  from c init obtain relevantChunks where
    s: "searchSimilar env (svc_vectorStore st) userMessage 6 = Inr relevantChunks"
    and ctx: "ctxt = semanticContext relevantChunks"
    by (auto simp: composeContext_def retrieveChunks_def split: sum.splits)
  from s have "length relevantChunks \<le> 6" by (rule searchSimilar_length)
  with s ctx r show "\<exists>relevantChunks.
           searchSimilar env (svc_vectorStore st) userMessage 6 = Inr relevantChunks \<and>
           length relevantChunks \<le> 6 \<and>
           request = completionRequest (systemInstructions st)
                       (semanticContext relevantChunks) userMessage" by blast
qed


theorem searchSimilar_at_most_k_witness:
  "searchSimilar exampleEnv exampleIndex ''hey'' 2 =
     Inr [\<lparr>content = ''hi'', metadata = \<lparr>fileName = ''b.txt'', chunkIndex = 0, totalChunks = 1\<rparr>\<rparr>,
          \<lparr>content = ''hello'', metadata = \<lparr>fileName = ''a.txt'', chunkIndex = 0, totalChunks = 1\<rparr>\<rparr>] \<and>
   length [\<lparr>content = ''hi'', metadata = \<lparr>fileName = ''b.txt'', chunkIndex = 0, totalChunks = 1\<rparr>\<rparr>,
          \<lparr>content = ''hello'', metadata = \<lparr>fileName = ''a.txt'', chunkIndex = 0, totalChunks = 1\<rparr>\<rparr>] \<le> (2::nat) \<and>
   isInitialized (svc_vectorStore exampleService) \<and>
   fst (sendMessage exampleEnv exampleService ''hey'') \<noteq> [] \<and>
   (\<exists>relevantChunks. length relevantChunks \<le> 6 \<and>
      hd (fst (sendMessage exampleEnv exampleService ''hey'')) =
        completionRequest (systemInstructions exampleService) (semanticContext relevantChunks) ''hey'')"
proof -
  have s: "searchSimilar exampleEnv exampleIndex ''hey'' 2 =
     Inr [\<lparr>content = ''hi'', metadata = \<lparr>fileName = ''b.txt'', chunkIndex = 0, totalChunks = 1\<rparr>\<rparr>,
          \<lparr>content = ''hello'', metadata = \<lparr>fileName = ''a.txt'', chunkIndex = 0, totalChunks = 1\<rparr>\<rparr>]"
    by (rule example_search)
  have i: "isInitialized (svc_vectorStore exampleService)"
    by (rule example_initialized)
  have m: "hd (fst (sendMessage exampleEnv exampleService ''hey'')) \<in> set (fst (sendMessage exampleEnv exampleService ''hey''))"
    and n: "fst (sendMessage exampleEnv exampleService ''hey'') \<noteq> []"
    by (simp_all add: example_sendMessage)
  from searchSimilar_at_most_k [of exampleEnv exampleIndex "''hey''" 2 _ exampleService "''hey''"] s i m n
  show ?thesis by (simp (no_asm_use)) blast
qed

section \<open>Chunking\<close>

lemma splitText_nth:
  "coverlap < csize \<Longrightarrow> i < length (splitText csize coverlap str) \<Longrightarrow>
   splitText csize coverlap str ! i = take csize (drop ((csize - coverlap) * i) str)"
proof (induction csize coverlap str arbitrary: i rule: splitText.induct)
  case (1 csize coverlap str)
  show ?case
  proof (cases "str = [] \<or> length str \<le> csize")
    case True
    with "1.prems" show ?thesis
      by (auto simp: splitText.simps [of csize coverlap str] split: if_splits)
  next
    case False
    then have unfold: "splitText csize coverlap str =
        take csize str # splitText csize coverlap (drop (csize - coverlap) str)"
      using "1.prems"(1) by (simp add: splitText.simps [of csize coverlap str])
    show ?thesis
    proof (cases i)
      case 0
      then show ?thesis by (simp add: unfold)
    next
      case (Suc j)
      with "1.prems" unfold have j: "j < length (splitText csize coverlap (drop (csize - coverlap) str))"
        by simp
      have "splitText csize coverlap (drop (csize - coverlap) str) ! j =
            take csize (drop ((csize - coverlap) * j) (drop (csize - coverlap) str))"
        using "1.IH" [of j] False "1.prems"(1) j by simp
      then show ?thesis
        by (simp add: unfold Suc add.commute)
    qed
  qed
qed

lemma splitText_more:
  "coverlap < csize \<Longrightarrow> Suc i < length (splitText csize coverlap str) \<Longrightarrow>
   csize + (csize - coverlap) * i < length str"
proof (induction csize coverlap str arbitrary: i rule: splitText.induct)
  case (1 csize coverlap str)
  show ?case
  proof (cases "str = [] \<or> length str \<le> csize")
    case True
    with "1.prems" show ?thesis
      by (auto simp: splitText.simps [of csize coverlap str] split: if_splits)
  next
    case False
    then have unfold: "splitText csize coverlap str =
        take csize str # splitText csize coverlap (drop (csize - coverlap) str)"
      using "1.prems"(1) by (simp add: splitText.simps [of csize coverlap str])
    show ?thesis
    proof (cases i)
      case 0
      with False show ?thesis by simp
    next
      case (Suc j)
      with "1.prems" unfold have j: "Suc j < length (splitText csize coverlap (drop (csize - coverlap) str))"
        by simp
      have "csize + (csize - coverlap) * j < length (drop (csize - coverlap) str)"
        using "1.IH" [of j] False "1.prems"(1) j by simp
      then show ?thesis
        by (simp add: Suc) 
    qed
  qed
qed

lemma splitText_nonempty:
  "c \<in> set (splitText csize coverlap str) \<Longrightarrow> c \<noteq> [] \<and> (coverlap < csize \<longrightarrow> length c \<le> csize)"
proof (induction csize coverlap str rule: splitText.induct)
  case (1 csize coverlap str)
  show ?case
  proof (cases "str = [] \<or> length str \<le> csize \<or> csize \<le> coverlap")
    case True
    with "1.prems" show ?thesis
      by (auto simp: splitText.simps [of csize coverlap str] split: if_splits)
  next
    case False
    then have unfold: "splitText csize coverlap str =
        take csize str # splitText csize coverlap (drop (csize - coverlap) str)"
      by (simp add: splitText.simps [of csize coverlap str])
    from "1.prems" unfold consider "c = take csize str"
      | "c \<in> set (splitText csize coverlap (drop (csize - coverlap) str))" by auto
    then show ?thesis
    proof cases
      case 1
      with False show ?thesis by auto
    next
      case 2
      then show ?thesis using "1.IH" False by simp
    qed
  qed
qed

lemma splitText_overlap:
  assumes "coverlap < csize" and "Suc i < length (splitText csize coverlap str)"
  shows "length (splitText csize coverlap str ! i) = csize \<and>
         drop (csize - coverlap) (splitText csize coverlap str ! i) =
         take coverlap (splitText csize coverlap str ! Suc i) \<and>
         length (take coverlap (splitText csize coverlap str ! Suc i)) = coverlap"
proof -
  let ?step = "csize - coverlap"
  from assms have more: "csize + ?step * i < length str" by (rule splitText_more)
  from assms have i: "i < length (splitText csize coverlap str)" by simp
  have a: "splitText csize coverlap str ! i = take csize (drop (?step * i) str)"
    using splitText_nth [OF assms(1) i] .
  have b: "splitText csize coverlap str ! Suc i = take csize (drop (?step * Suc i) str)"
    using splitText_nth [OF assms] .
  have len: "length (splitText csize coverlap str ! i) = csize"
    using more by (simp add: a)
  have "drop ?step (take csize (drop (?step * i) str)) =
        take (csize - ?step) (drop ?step (drop (?step * i) str))"
    by (simp add: drop_take)
  also have "\<dots> = take coverlap (drop (?step * Suc i) str)"
    using assms(1) by (simp add: add.commute)
  also have "\<dots> = take coverlap (take csize (drop (?step * Suc i) str))"
    using assms(1) by (simp add: min_def)
  finally have ov: "drop ?step (splitText csize coverlap str ! i) =
         take coverlap (splitText csize coverlap str ! Suc i)"
    by (simp add: a b)
  have "coverlap \<le> length (splitText csize coverlap str ! Suc i)"
    using more assms(1) by (simp add: b)
  with len ov show ?thesis by simp
qed

lemma docsWithMetadata_contents:
  "map pageContent (docsWithMetadata sp doc) = createDocuments sp (file_content doc)"
proof -
  have "map (\<lambda>x. pageContent (case x of (index, chunk) \<Rightarrow> f index chunk)) xs =
        map (\<lambda>x. pageContent (f (fst x) (snd x))) xs" for f :: "nat \<Rightarrow> string \<Rightarrow> Document" and xs
    by (simp add: case_prod_unfold)
  then show ?thesis
    by (simp add: docsWithMetadata_def Let_def case_prod_unfold comp_def)
qed

text \<open>
  Claim C7, as stated, fails: the chunks of a document need not have the configured size
  of 1000 characters. A document of five characters is stored as one chunk of five
  characters.
\<close>

theorem chunking_short_document_counterexample:
  "map length (map pageContent
     (docsWithMetadata (textSplitter newVectorStoreService)
        \<lparr>name = ''a.txt'', file_content = ''hello''\<rparr>)) = [5]"
  by (simp add: docsWithMetadata_contents createDocuments_def newVectorStoreService_def
      splitText.simps)

text \<open>
  Claim C7, amended. With the configured splitter (chunk size 1000, overlap 200), the
  chunks of a document are the windows of its text that start every 800 characters: each
  chunk is not empty and has at most 1000 characters, the chunk at position \<open>i\<close> is the
  text from offset \<open>800 * i\<close> on, cut at 1000 characters, every chunk but the last has
  exactly 1000 characters, and its last 200 characters are the first 200 of the next.
\<close>

theorem chunking_windows:
  "(\<forall>c\<in>set (map pageContent (docsWithMetadata (textSplitter newVectorStoreService) doc)).
      c \<noteq> [] \<and> length c \<le> 1000) \<and>
   (\<forall>i. i < length (docsWithMetadata (textSplitter newVectorStoreService) doc) \<longrightarrow>
      map pageContent (docsWithMetadata (textSplitter newVectorStoreService) doc) ! i =
        take 1000 (drop (800 * i) (file_content doc))) \<and>
   (\<forall>i. Suc i < length (docsWithMetadata (textSplitter newVectorStoreService) doc) \<longrightarrow>
      length (map pageContent (docsWithMetadata (textSplitter newVectorStoreService) doc) ! i) = 1000 \<and>
      drop 800 (map pageContent (docsWithMetadata (textSplitter newVectorStoreService) doc) ! i) =
        take 200 (map pageContent (docsWithMetadata (textSplitter newVectorStoreService) doc) ! Suc i) \<and>
      length (take 200
        (map pageContent (docsWithMetadata (textSplitter newVectorStoreService) doc) ! Suc i)) = 200)"
proof -
  let ?chunks = "map pageContent (docsWithMetadata (textSplitter newVectorStoreService) doc)"
  have eq: "?chunks = splitText 1000 200 (file_content doc)"
    by (simp add: docsWithMetadata_contents createDocuments_def newVectorStoreService_def)
  have len: "length (docsWithMetadata (textSplitter newVectorStoreService) doc) = length ?chunks"
    by simp
  have 1: "\<forall>c\<in>set ?chunks. c \<noteq> [] \<and> length c \<le> 1000"
    unfolding eq using splitText_nonempty [of _ 1000 200 "file_content doc"] by simp
  have 2: "\<forall>i. i < length ?chunks \<longrightarrow> ?chunks ! i = take 1000 (drop (800 * i) (file_content doc))"
    unfolding eq using splitText_nth [of 200 1000 _ "file_content doc"] by simp
  have 3: "\<forall>i. Suc i < length ?chunks \<longrightarrow>
      length (?chunks ! i) = 1000 \<and> drop 800 (?chunks ! i) = take 200 (?chunks ! Suc i) \<and>
      length (take 200 (?chunks ! Suc i)) = 200"
    unfolding eq using splitText_overlap [of 200 1000 _ "file_content doc"] by simp
  from 1 2 3 show ?thesis unfolding len by blast
qed

lemma longDocument_chunks:
  "map pageContent (docsWithMetadata (textSplitter newVectorStoreService) longDocument) =
     [replicate 1000 CHR ''a'', replicate 300 CHR ''a'']"
  by (simp add: docsWithMetadata_contents createDocuments_def newVectorStoreService_def
      longDocument_def splitText.simps)

theorem chunking_windows_witness:
  "Suc 0 < length (docsWithMetadata (textSplitter newVectorStoreService) longDocument) \<and>
   map pageContent (docsWithMetadata (textSplitter newVectorStoreService) longDocument) =
     [replicate 1000 CHR ''a'', replicate 300 CHR ''a''] \<and>
   length (replicate 1000 CHR ''a'') = 1000 \<and>
   drop 800 (replicate 1000 CHR ''a'') = take 200 (replicate 300 CHR ''a'')"
proof -
  have c: "map pageContent (docsWithMetadata (textSplitter newVectorStoreService) longDocument) =
     [replicate 1000 CHR ''a'', replicate 300 CHR ''a'']"
    by (rule longDocument_chunks)
  have "length (map pageContent (docsWithMetadata (textSplitter newVectorStoreService) longDocument)) = 2"
    by (simp only: c) simp
  then have l: "Suc 0 < length (docsWithMetadata (textSplitter newVectorStoreService) longDocument)"
    by simp
  from chunking_windows [of longDocument] l
  have "length (map pageContent (docsWithMetadata (textSplitter newVectorStoreService) longDocument) ! 0) = 1000 \<and>
      drop 800 (map pageContent (docsWithMetadata (textSplitter newVectorStoreService) longDocument) ! 0) =
        take 200 (map pageContent (docsWithMetadata (textSplitter newVectorStoreService) longDocument) ! Suc 0)"
    by blast
  with l c show ?thesis by simp
qed

section \<open>Clearing the files\<close>

lemma searchSimilar_cleared:
  assumes "searchSimilar env (clear vs) query k = Inr chunks"
  shows "chunks = []"
  using assms
  by (auto simp: searchSimilar_def clear_def similaritySearchVectorWithScore_def
      split: option.splits sum.splits)

lemma example_ready: "isReady exampleService"
  by (simp add: isReady_def exampleService_def exampleDocuments_def)

text \<open>
  Claim C10, as stated, fails: \<open>clearFiles\<close> does not always replace the vector index
  with a fresh empty one. On a service created without an API key the embeddings client
  is missing, and the index is \<open>null\<close> after \<open>clearFiles\<close>.
\<close>

theorem clearFiles_uninitialised_counterexample:
  "vectorStore (svc_vectorStore (clearFiles (newOpenAIService None))) = None"
  by (simp add: clearFiles_def clear_def newOpenAIService_def newVectorStoreService_def)

text \<open>
  Claim C10, amended. \<open>clearFiles\<close> empties the stored file contents and resets the
  vector index: to a fresh empty one when the embeddings client is initialised, to \<open>null\<close>
  otherwise. Afterwards \<open>hasFiles\<close> and \<open>isReady\<close> are false and a search returns no
  chunk, whatever the query and the bound; the client, the system instructions, the
  embeddings client and the splitter are unchanged.
\<close>

theorem clearFiles_effect:
  "fileContents (clearFiles st) = [] \<and>
   vectorStore (svc_vectorStore (clearFiles st)) =
     (case embeddings (svc_vectorStore st) of None \<Rightarrow> None | Some key \<Rightarrow> Some []) \<and>
   \<not> hasFiles (clearFiles st) \<and> \<not> isReady (clearFiles st) \<and>
   (\<forall>env query k chunks.
      searchSimilar env (svc_vectorStore (clearFiles st)) query k = Inr chunks \<longrightarrow> chunks = []) \<and>
   client (clearFiles st) = client st \<and>
   systemInstructions (clearFiles st) = systemInstructions st \<and>
   embeddings (svc_vectorStore (clearFiles st)) = embeddings (svc_vectorStore st) \<and>
   textSplitter (svc_vectorStore (clearFiles st)) = textSplitter (svc_vectorStore st)"
proof -
  have vs: "svc_vectorStore (clearFiles st) = clear (svc_vectorStore st)"
    by (simp add: clearFiles_def)
  have "\<forall>env query k chunks.
      searchSimilar env (svc_vectorStore (clearFiles st)) query k = Inr chunks \<longrightarrow> chunks = []"
    unfolding vs using searchSimilar_cleared by blast
  moreover have "vectorStore (clear (svc_vectorStore st)) =
     (case embeddings (svc_vectorStore st) of None \<Rightarrow> None | Some key \<Rightarrow> Some [])"
    and "embeddings (clear (svc_vectorStore st)) = embeddings (svc_vectorStore st)"
    and "textSplitter (clear (svc_vectorStore st)) = textSplitter (svc_vectorStore st)"
    by (simp_all add: clear_def split: option.splits)
  moreover have "fileContents (clearFiles st) = []" "client (clearFiles st) = client st"
    "systemInstructions (clearFiles st) = systemInstructions st"
    by (simp_all add: clearFiles_def)
  ultimately show ?thesis
    by (simp add: vs hasFiles_def isReady_def)
qed

theorem clearFiles_effect_witness:
  "hasFiles exampleService \<and>
   searchSimilar exampleEnv (svc_vectorStore exampleService) ''hey'' 2 \<noteq> Inr [] \<and>
   searchSimilar exampleEnv (svc_vectorStore (clearFiles exampleService)) ''hey'' 2 = Inr [] \<and>
   \<not> hasFiles (clearFiles exampleService) \<and>
   client (clearFiles exampleService) = Some ''sk-test''"
proof -
  have a: "hasFiles exampleService"
    by (simp add: hasFiles_def exampleService_def exampleDocuments_def)
  have b: "searchSimilar exampleEnv (svc_vectorStore exampleService) ''hey'' 2 \<noteq> Inr []"
    by (simp add: exampleService_def example_search)
  have c: "searchSimilar exampleEnv (svc_vectorStore (clearFiles exampleService)) ''hey'' 2 = Inr []"
    by (simp add: clearFiles_def clear_def exampleService_def exampleIndex_def searchSimilar_def
        exampleEnv_def external_def similaritySearchVectorWithScore_def)
  have d: "client exampleService = Some ''sk-test''"
    by (simp add: exampleService_def)
  from clearFiles_effect [of exampleService] a b c d show ?thesis by simp
qed

section \<open>When sendMessage raises\<close>

lemma composeContext_error:
  assumes "composeContext env st userMessage = Inl e"
  shows "\<exists>why. e = External why"
  using assms
  by (auto simp: composeContext_def retrieveChunks_def searchSimilar_def isInitialized_def
      external_def split: if_splits option.splits sum.splits)

lemma trySendMessage_error:
  assumes "snd (trySendMessage env st userMessage) = Inl e"
  shows "\<exists>why. e = External why"
proof (cases "composeContext env st userMessage")
  case (Inl e')
  with assms have "e = e'" by (simp add: trySendMessage_def)
  with Inl show ?thesis using composeContext_error by blast
next
  case (Inr ctxt)
  with assms show ?thesis
    by (auto simp: trySendMessage_def Let_def external_def split: sum.splits)
qed

lemma isReady_iff: "isReady st \<longleftrightarrow> client st \<noteq> None \<and> fileContents st \<noteq> []"
  by (simp add: isReady_def)

lemma example_completion_down:
  "snd (sendMessage completionDownEnv exampleService ''hey'') = Inl (External ''rate limited'')"
  by (simp add: sendMessage_def trySendMessage_def composeContext_def
      retrieveChunks_def isInitialized_def exampleService_def exampleDocuments_def
      searchSimilar_def exampleIndex_def completionDownEnv_def exampleEnv_def external_def)

text \<open>
  Claim C8, as stated, fails: \<open>sendMessage\<close> also raises when the service is ready. With
  a client and stored files, a completion call that fails makes \<open>sendMessage\<close> rethrow
  the failure.
\<close>

theorem sendMessage_rethrows_counterexample:
  "isReady exampleService \<and>
   snd (sendMessage completionDownEnv exampleService ''hey'') = Inl (External ''rate limited'')"
  using example_ready example_completion_down by (rule conjI)

text \<open>
  Claim C8, amended. \<open>sendMessage\<close> throws \<open>OpenAI client not initialized\<close> when no
  client is set, throws \<open>No files uploaded. Please upload documents first.\<close> when a
  client is set and no file content is stored, and otherwise proceeds to retrieval and
  the completion call. It raises an error of its own exactly when the service is not
  ready; an error it raises when the service is ready is one rethrown from an external
  call. \<open>isReady\<close> is true exactly when a client is set and a file content is stored.
\<close>

theorem sendMessage_guards:
  "(client st = None \<longrightarrow>
      sendMessage env st userMessage = ([], Inl (Error ''OpenAI client not initialized''))) \<and>
   (client st \<noteq> None \<and> fileContents st = [] \<longrightarrow>
      sendMessage env st userMessage =
        ([], Inl (Error ''No files uploaded. Please upload documents first.''))) \<and>
   (isReady st \<longrightarrow> sendMessage env st userMessage = trySendMessage env st userMessage) \<and>
   ((\<exists>msg. snd (sendMessage env st userMessage) = Inl (Error msg)) \<longleftrightarrow> \<not> isReady st) \<and>
   (\<forall>e. isReady st \<and> snd (sendMessage env st userMessage) = Inl e \<longrightarrow> (\<exists>why. e = External why)) \<and>
   (isReady st \<longleftrightarrow> client st \<noteq> None \<and> fileContents st \<noteq> [])"
proof -
  have 1: "client st = None \<Longrightarrow>
      sendMessage env st userMessage = ([], Inl (Error ''OpenAI client not initialized''))"
    by (simp add: sendMessage_def)
  have 2: "client st \<noteq> None \<and> fileContents st = [] \<Longrightarrow>
      sendMessage env st userMessage =
        ([], Inl (Error ''No files uploaded. Please upload documents first.''))"
    by (auto simp: sendMessage_def)
  have 3: "isReady st \<Longrightarrow> sendMessage env st userMessage = trySendMessage env st userMessage"
    by (auto simp: sendMessage_def isReady_def)
  have 5: "\<exists>why. e = External why" if "isReady st \<and> snd (sendMessage env st userMessage) = Inl e" for e
    using that 3 trySendMessage_error by fastforce
  have 4: "(\<exists>msg. snd (sendMessage env st userMessage) = Inl (Error msg)) \<longleftrightarrow> \<not> isReady st"
  proof
    assume "\<exists>msg. snd (sendMessage env st userMessage) = Inl (Error msg)"
    then obtain msg where m: "snd (sendMessage env st userMessage) = Inl (Error msg)" ..
    show "\<not> isReady st"
    proof
      assume "isReady st"
      with m 5 [of "Error msg"] show False by auto
    qed
  next
    assume n: "\<not> isReady st"
    show "\<exists>msg. snd (sendMessage env st userMessage) = Inl (Error msg)"
    proof (cases "client st")
      case None
      then show ?thesis using 1 by simp
    next
      case (Some c)
      with n have "client st \<noteq> None \<and> fileContents st = []" by (simp add: isReady_def)
      then show ?thesis using 2 by simp
    qed
  qed
  from 1 2 3 4 5 isReady_iff show ?thesis by blast
qed

theorem sendMessage_guards_witness:
  "client (newOpenAIService None) = None \<and>
   sendMessage exampleEnv (newOpenAIService None) ''hey'' =
     ([], Inl (Error ''OpenAI client not initialized'')) \<and>
   client (newOpenAIService (Some ''sk-test'')) \<noteq> None \<and>
   fileContents (newOpenAIService (Some ''sk-test'')) = [] \<and>
   sendMessage exampleEnv (newOpenAIService (Some ''sk-test'')) ''hey'' =
     ([], Inl (Error ''No files uploaded. Please upload documents first.'')) \<and>
   isReady exampleService \<and>
   sendMessage exampleEnv exampleService ''hey'' = trySendMessage exampleEnv exampleService ''hey''"
proof -
  have a: "client (newOpenAIService None) = None"
    by (simp add: newOpenAIService_def)
  have b: "client (newOpenAIService (Some ''sk-test'')) \<noteq> None \<and>
           fileContents (newOpenAIService (Some ''sk-test'')) = []"
    by (simp add: newOpenAIService_def)
  from sendMessage_guards [of "newOpenAIService None" exampleEnv "''hey''"]
    sendMessage_guards [of "newOpenAIService (Some ''sk-test'')" exampleEnv "''hey''"]
    sendMessage_guards [of exampleService exampleEnv "''hey''"]
    a b example_ready
  show ?thesis by simp
qed

section \<open>The completion request\<close>

lemma example_offline:
  "sendMessage offlineEnv exampleService ''hey'' = ([], Inl (External ''offline''))"
  by (simp add: sendMessage_def trySendMessage_def composeContext_def
      retrieveChunks_def isInitialized_def exampleService_def exampleDocuments_def
      searchSimilar_def exampleIndex_def offlineEnv_def external_def)

text \<open>
  Claim C5, as stated, fails: a message sent to a ready service need not lead to a
  completion request. When the embedding of the query fails, \<open>sendMessage\<close> rethrows the
  failure: no request is issued and no text is returned.
\<close>

theorem sendMessage_no_request_counterexample:
  "isReady exampleService \<and>
   sendMessage offlineEnv exampleService ''hey'' = ([], Inl (External ''offline''))"
  using example_ready example_offline by (rule conjI)

text \<open>
  Claim C5, amended. For a message sent when the service is ready: when the context is
  composed without an error, \<open>sendMessage\<close> issues exactly one completion request, of one
  system message (the system instructions and the context) and one user message (the
  message), with \<open>max_tokens\<close> 800 and temperature 0.7; it returns one text when the
  request succeeds and rethrows the failure of the request otherwise. When composing the
  context fails, it rethrows that failure and issues no request.
\<close>

theorem sendMessage_request:
  "isReady st \<longrightarrow>
     (\<forall>ctxt. composeContext env st userMessage = Inr ctxt \<longrightarrow>
        fst (sendMessage env st userMessage) =
          [\<lparr>model = ''gpt-4.1-2025-04-14'',
            messages = [(System, systemPrompt (systemInstructions st) ctxt), (User, userMessage)],
            max_tokens = 800,
            temperature = 7 / 10\<rparr>] \<and>
        (\<forall>choices.
           createCompletion env (completionRequest (systemInstructions st) ctxt userMessage) =
             Inr choices \<longrightarrow>
           snd (sendMessage env st userMessage) = Inr (firstContent choices)) \<and>
        (\<forall>why.
           createCompletion env (completionRequest (systemInstructions st) ctxt userMessage) =
             Inl why \<longrightarrow>
           snd (sendMessage env st userMessage) = Inl (External why))) \<and>
     (\<forall>e. composeContext env st userMessage = Inl e \<longrightarrow>
        sendMessage env st userMessage = ([], Inl e))"
proof
  assume "isReady st"
  then have s: "sendMessage env st userMessage = trySendMessage env st userMessage"
    by (auto simp: sendMessage_def isReady_def)
  have a: "fst (trySendMessage env st userMessage) =
          [\<lparr>model = ''gpt-4.1-2025-04-14'',
            messages = [(System, systemPrompt (systemInstructions st) ctxt), (User, userMessage)],
            max_tokens = 800,
            temperature = 7 / 10\<rparr>]"
    if "composeContext env st userMessage = Inr ctxt" for ctxt
    using that by (simp add: trySendMessage_def Let_def completionRequest_def split: sum.splits)
  have b: "snd (trySendMessage env st userMessage) = Inr (firstContent choices)"
    if "composeContext env st userMessage = Inr ctxt"
      "createCompletion env (completionRequest (systemInstructions st) ctxt userMessage) = Inr choices"
    for ctxt choices
    using that by (simp add: trySendMessage_def Let_def external_def)
  have c: "snd (trySendMessage env st userMessage) = Inl (External why)"
    if "composeContext env st userMessage = Inr ctxt"
      "createCompletion env (completionRequest (systemInstructions st) ctxt userMessage) = Inl why"
    for ctxt why
    using that by (simp add: trySendMessage_def Let_def external_def)
  have d: "trySendMessage env st userMessage = ([], Inl e)"
    if "composeContext env st userMessage = Inl e" for e
    using that by (simp add: trySendMessage_def)
  from a b c d show "(\<forall>ctxt. composeContext env st userMessage = Inr ctxt \<longrightarrow>
        fst (sendMessage env st userMessage) =
          [\<lparr>model = ''gpt-4.1-2025-04-14'',
            messages = [(System, systemPrompt (systemInstructions st) ctxt), (User, userMessage)],
            max_tokens = 800,
            temperature = 7 / 10\<rparr>] \<and>
        (\<forall>choices.
           createCompletion env (completionRequest (systemInstructions st) ctxt userMessage) =
             Inr choices \<longrightarrow>
           snd (sendMessage env st userMessage) = Inr (firstContent choices)) \<and>
        (\<forall>why.
           createCompletion env (completionRequest (systemInstructions st) ctxt userMessage) =
             Inl why \<longrightarrow>
           snd (sendMessage env st userMessage) = Inl (External why))) \<and>
     (\<forall>e. composeContext env st userMessage = Inl e \<longrightarrow>
        sendMessage env st userMessage = ([], Inl e))"
    unfolding s by blast
qed

lemma example_context:
  "composeContext exampleEnv exampleService ''hey'' =
     Inr (semanticContext
            [\<lparr>content = ''hi'', metadata = \<lparr>fileName = ''b.txt'', chunkIndex = 0, totalChunks = 1\<rparr>\<rparr>,
             \<lparr>content = ''hello'', metadata = \<lparr>fileName = ''a.txt'', chunkIndex = 0, totalChunks = 1\<rparr>\<rparr>,
             \<lparr>content = ''good day'', metadata = \<lparr>fileName = ''c.txt'', chunkIndex = 0, totalChunks = 1\<rparr>\<rparr>])"
  by (simp add: composeContext_def retrieveChunks_def
      isInitialized_def exampleService_def
      searchSimilar_def exampleIndex_def exampleEnv_def external_def
      similaritySearchVectorWithScore_def toChunk_def)

lemma example_context_offline:
  "composeContext offlineEnv exampleService ''hey'' = Inl (External ''offline'')"
  by (simp add: composeContext_def retrieveChunks_def isInitialized_def exampleService_def
      searchSimilar_def exampleIndex_def offlineEnv_def external_def)

theorem sendMessage_request_witness:
  "isReady exampleService \<and>
   composeContext exampleEnv exampleService ''hey'' =
     Inr (semanticContext
            [\<lparr>content = ''hi'', metadata = \<lparr>fileName = ''b.txt'', chunkIndex = 0, totalChunks = 1\<rparr>\<rparr>,
             \<lparr>content = ''hello'', metadata = \<lparr>fileName = ''a.txt'', chunkIndex = 0, totalChunks = 1\<rparr>\<rparr>,
             \<lparr>content = ''good day'', metadata = \<lparr>fileName = ''c.txt'', chunkIndex = 0, totalChunks = 1\<rparr>\<rparr>]) \<and>
   length (fst (sendMessage exampleEnv exampleService ''hey'')) = 1 \<and>
   map max_tokens (fst (sendMessage exampleEnv exampleService ''hey'')) = [800] \<and>
   map temperature (fst (sendMessage exampleEnv exampleService ''hey'')) = [7 / 10] \<and>
   map (map fst) (map messages (fst (sendMessage exampleEnv exampleService ''hey''))) = [[System, User]] \<and>
   snd (sendMessage exampleEnv exampleService ''hey'') = Inr ''An answer'' \<and>
   composeContext offlineEnv exampleService ''hey'' = Inl (External ''offline'') \<and>
   sendMessage offlineEnv exampleService ''hey'' = ([], Inl (External ''offline''))"
proof -
  have c: "createCompletion exampleEnv request = Inr [\<lparr>message = Some (Some ''An answer'')\<rparr>]"
    for request by (simp add: exampleEnv_def)
  have f: "firstContent [\<lparr>message = Some (Some ''An answer'')\<rparr>] = ''An answer''"
    by (simp add: firstContent_def or_else_def)
  from sendMessage_request [of exampleService exampleEnv "''hey''"]
    sendMessage_request [of exampleService offlineEnv "''hey''"]
    example_ready example_context example_context_offline c f
  show ?thesis by simp
qed

section \<open>Extraction\<close>

lemma or_else_nonempty: "b \<noteq> [] \<Longrightarrow> or_else a b \<noteq> []"
  by (simp add: or_else_def)

lemma extractPdfText_nonempty: "extractPdfText env file \<noteq> []"
proof (cases "tryExtractPdfText env file")
  case (Inl e)
  then show ?thesis by (simp add: extractPdfText_def)
next
  case (Inr fullText)
  then have "\<exists>t. fullText = or_else t (''No text content found in PDF: '' @ file_name file)"
    by (auto simp: tryExtractPdfText_def split: sum.splits)
  then have "fullText \<noteq> []" using or_else_nonempty by fastforce
  with Inr show ?thesis by (simp add: extractPdfText_def)
qed

lemma extractPptxText_nonempty: "extractPptxText env file \<noteq> []"
proof (cases "tryExtractPptxText env file")
  case (Inl e)
  then show ?thesis by (simp add: extractPptxText_def)
next
  case (Inr fullText)
  then have "\<exists>t. fullText = or_else t (''Unable to extract readable text from: '' @ file_name file)"
    by (auto simp: tryExtractPptxText_def split: sum.splits)
  then have "fullText \<noteq> []" using or_else_nonempty by fastforce
  with Inr show ?thesis by (simp add: extractPptxText_def)
qed

lemma example_empty_docx:
  "readFile exampleEnv docxFile = Inr \<lparr>name = ''blank.docx'', file_content = []\<rparr>"
  by (simp add: readFile_def docxFile_def extractDocxText_def tryExtractDocxText_def
      exampleEnv_def external_def)

text \<open>
  Claim C1, as stated, fails: the text extracted from a file of a supported type can be
  empty. A plain-text file without content is read as the empty string.
\<close>

theorem extraction_empty_text_counterexample:
  "file_type (uf_file emptyTextFile) = ''text/plain'' \<and>
   readFile exampleEnv emptyTextFile = Inr \<lparr>name = ''empty.txt'', file_content = []\<rparr>"
  by (simp add: readFile_def emptyTextFile_def or_else_def)

text \<open>
  Claim C1, amended. For a PDF and for a PPTX file the extraction step produces a text
  that is not empty: the extracted text, or a message that names the file when nothing
  was extracted or the parser failed. For a plain-text or \<open>.py\<close> file whose read succeeds
  it produces the text the reader loaded, which is empty when nothing was loaded.
\<close>

theorem extraction_nonempty:
  "(file_type (uf_file file) = ''application/pdf'' \<longrightarrow>
      readFile env file =
        Inr \<lparr>name = uf_name file, file_content = extractPdfText env (uf_file file)\<rparr> \<and>
      extractPdfText env (uf_file file) \<noteq> []) \<and>
   (file_type (uf_file file) =
      ''application/vnd.openxmlformats-officedocument.presentationml.presentation'' \<longrightarrow>
      readFile env file =
        Inr \<lparr>name = uf_name file, file_content = extractPptxText env (uf_file file)\<rparr> \<and>
      extractPptxText env (uf_file file) \<noteq> []) \<and>
   (file_type (uf_file file) \<noteq> ''application/pdf'' \<and>
    file_type (uf_file file) \<noteq>
      ''application/vnd.openxmlformats-officedocument.wordprocessingml.document'' \<and>
    file_type (uf_file file) \<noteq>
      ''application/vnd.openxmlformats-officedocument.presentationml.presentation'' \<and>
    (file_type (uf_file file) = ''text/plain'' \<or> endsWith (file_name (uf_file file)) ''.py'') \<longrightarrow>
      (\<forall>loaded. readAsText (uf_file file) = Inr (Some loaded) \<longrightarrow>
         readFile env file = Inr \<lparr>name = uf_name file, file_content = loaded\<rparr>) \<and>
      (readAsText (uf_file file) = Inr None \<longrightarrow>
         readFile env file = Inr \<lparr>name = uf_name file, file_content = []\<rparr>))"
  by (auto simp: readFile_def extractPdfText_nonempty extractPptxText_nonempty or_else_def)

lemma example_pdf:
  "readFile exampleEnv pdfFile = Inr \<lparr>name = ''report.pdf'', file_content = ''Hello PDF'' @ newline\<rparr>"
  by (simp add: readFile_def pdfFile_def extractPdfText_def tryExtractPdfText_def
      exampleEnv_def external_def or_else_def)

lemma example_pptx:
  "readFile exampleEnv pptxFile = Inr \<lparr>name = ''slides.pptx'', file_content = ''Hi'' @ newline\<rparr>"
  by (simp add: readFile_def pptxFile_def extractPptxText_def tryExtractPptxText_def
      exampleEnv_def external_def or_else_def isSlideFile_def startsWith_def endsWith_def
      matchTextRun_def)

theorem extraction_nonempty_witness:
  "file_type (uf_file pdfFile) = ''application/pdf'' \<and>
   readFile exampleEnv pdfFile =
     Inr \<lparr>name = ''report.pdf'', file_content = ''Hello PDF'' @ newline\<rparr> \<and>
   extractPdfText exampleEnv (uf_file pdfFile) \<noteq> [] \<and>
   file_type (uf_file pptxFile) =
     ''application/vnd.openxmlformats-officedocument.presentationml.presentation'' \<and>
   readFile exampleEnv pptxFile =
     Inr \<lparr>name = ''slides.pptx'', file_content = ''Hi'' @ newline\<rparr> \<and>
   extractPptxText exampleEnv (uf_file pptxFile) \<noteq> [] \<and>
   file_type (uf_file notesFile) = ''text/plain'' \<and>
   readAsText (uf_file notesFile) = Inr (Some ''hello'') \<and>
   readFile exampleEnv notesFile = Inr \<lparr>name = ''notes.txt'', file_content = ''hello''\<rparr>"
proof -
  have a: "file_type (uf_file pdfFile) = ''application/pdf''"
    by (simp add: pdfFile_def)
  have b: "file_type (uf_file notesFile) = ''text/plain''"
    "readAsText (uf_file notesFile) = Inr (Some ''hello'')" "uf_name notesFile = ''notes.txt''"
    by (simp_all add: notesFile_def)
  have c: "file_type (uf_file pptxFile) =
     ''application/vnd.openxmlformats-officedocument.presentationml.presentation''"
    by (simp add: pptxFile_def)
  from extraction_nonempty [of pdfFile exampleEnv] extraction_nonempty [of notesFile exampleEnv]
    extraction_nonempty [of pptxFile exampleEnv] a b c example_pdf example_pptx
  show ?thesis by simp
qed

section \<open>A batch of uploaded files\<close>

lemma readFile_rejects:
  "readFile env file = Inl e \<longleftrightarrow>
     e = Error ''Failed to read file'' \<and>
     file_type (uf_file file) \<noteq> ''application/pdf'' \<and>
     file_type (uf_file file) \<noteq>
       ''application/vnd.openxmlformats-officedocument.wordprocessingml.document'' \<and>
     file_type (uf_file file) \<noteq>
       ''application/vnd.openxmlformats-officedocument.presentationml.presentation'' \<and>
     (file_type (uf_file file) = ''text/plain'' \<or> endsWith (file_name (uf_file file)) ''.py'') \<and>
     (\<exists>why. readAsText (uf_file file) = Inl why)"
  by (auto simp: readFile_def split: sum.splits)

lemma promiseAll_fulfilled:
  "(\<forall>p\<in>set ps. \<forall>e. p \<noteq> Inl e) \<Longrightarrow> \<exists>vs. promiseAll ps = Inr vs \<and> map Inr vs = ps"
proof (induction ps)
  case Nil
  then show ?case by simp
next
  case (Cons p ps)
  then obtain vs where vs: "promiseAll ps = Inr vs" "map Inr vs = ps" by auto
  from Cons.prems obtain v where "p = Inr v" by (cases p) auto
  with vs show ?case by simp
qed

lemma promiseAll_rejected:
  "Inl e \<in> set ps \<Longrightarrow> (\<forall>p\<in>set ps. \<forall>e'. p = Inl e' \<longrightarrow> e' = e) \<Longrightarrow> promiseAll ps = Inl e"
proof (induction ps)
  case Nil
  then show ?case by simp
next
  case (Cons p ps)
  show ?case
  proof (cases p)
    case (Inl e')
    from Cons.prems(2) Inl have "e' = e" by simp
    with Inl show ?thesis by simp
  next
    case (Inr v)
    with Cons.prems(1) have 1: "Inl e \<in> set ps" by auto
    from Cons.prems(2) have 2: "\<forall>p\<in>set ps. \<forall>e'. p = Inl e' \<longrightarrow> e' = e" by simp
    from Cons.IH [OF 1 2] Inr show ?thesis by simp
  qed
qed

lemma uploadFiles_fulfilled:
  assumes "client st \<noteq> None" and "promiseAll (map (readFile env) files) = Inr extracted"
  shows "fileContents (fst (uploadFiles env st files)) = fileContents st @ extracted \<and>
         snd (uploadFiles env st files) =
           (if isInitialized (svc_vectorStore st) then
              (case addDocuments env (svc_vectorStore st) extracted of
                 Inl e \<Rightarrow> Inl e
               | Inr vs \<Rightarrow> Inr ())
            else Inr ())"
  using assms
  by (auto simp: uploadFiles_def Let_def split: option.splits sum.splits)

lemma uploadFiles_rejected:
  assumes "client st \<noteq> None" and "promiseAll (map (readFile env) files) = Inl e"
  shows "uploadFiles env st files = (st, Inl e)"
  using assms
  by (auto simp: uploadFiles_def split: option.splits)

text \<open>
  Claim C3, as stated, fails: one failed extraction can reject the whole batch. When the
  reader of a plain-text file reports an error, \<open>uploadFiles\<close> rejects with
  \<open>Failed to read file\<close> and stores nothing, also for the files that were read.
\<close>

theorem uploadFiles_text_read_counterexample:
  "uploadFiles exampleEnv (newOpenAIService (Some ''sk-test'')) [notesFile, unreadableTextFile] =
     (newOpenAIService (Some ''sk-test''), Inl (Error ''Failed to read file''))"
  by (simp add: uploadFiles_def newOpenAIService_def readFile_def notesFile_def
      unreadableTextFile_def or_else_def)

text \<open>
  Claim C3, amended. A PDF, DOCX or PPTX file whose extraction fails gets a placeholder
  string as its content. When no plain-text read fails, \<open>uploadFiles\<close> stores one content
  for every file of the batch, in order, and rejects only if indexing the documents
  fails. When the reader of a plain-text or \<open>.py\<close> file reports an error, \<open>uploadFiles\<close>
  rejects the whole batch with \<open>Failed to read file\<close> and leaves the service unchanged.
\<close>

theorem uploadFiles_batch:
  "(\<forall>e. file_type (uf_file file) = ''application/pdf'' \<and>
        tryExtractPdfText env (uf_file file) = Inl e \<longrightarrow>
        readFile env file =
          Inr \<lparr>name = uf_name file,
               file_content = ''Error extracting content from PDF: '' @ file_name (uf_file file)\<rparr>) \<and>
   (\<forall>e. file_type (uf_file file) =
          ''application/vnd.openxmlformats-officedocument.wordprocessingml.document'' \<and>
        tryExtractDocxText env (uf_file file) = Inl e \<longrightarrow>
        readFile env file =
          Inr \<lparr>name = uf_name file,
               file_content = ''Error extracting content from DOCX: '' @ file_name (uf_file file)\<rparr>) \<and>
   (\<forall>e. file_type (uf_file file) =
          ''application/vnd.openxmlformats-officedocument.presentationml.presentation'' \<and>
        tryExtractPptxText env (uf_file file) = Inl e \<longrightarrow>
        readFile env file =
          Inr \<lparr>name = uf_name file,
               file_content = ''Error extracting content from PPTX: '' @ file_name (uf_file file)\<rparr>) \<and>
   (client st \<noteq> None \<and> (\<forall>f\<in>set files. \<forall>e. readFile env f \<noteq> Inl e) \<longrightarrow>
      (\<exists>extracted.
         map Inr extracted = map (readFile env) files \<and>
         fileContents (fst (uploadFiles env st files)) = fileContents st @ extracted \<and>
         snd (uploadFiles env st files) =
           (if isInitialized (svc_vectorStore st) then
              (case addDocuments env (svc_vectorStore st) extracted of
                 Inl e \<Rightarrow> Inl e
               | Inr vs \<Rightarrow> Inr ())
            else Inr ()))) \<and>
   (client st \<noteq> None \<and> (\<exists>f\<in>set files. \<exists>e. readFile env f = Inl e) \<longrightarrow>
      uploadFiles env st files = (st, Inl (Error ''Failed to read file'')))"
proof (intro conjI allI impI)
  fix e
  assume "file_type (uf_file file) = ''application/pdf'' \<and>
        tryExtractPdfText env (uf_file file) = Inl e"
  then show "readFile env file =
          Inr \<lparr>name = uf_name file,
               file_content = ''Error extracting content from PDF: '' @ file_name (uf_file file)\<rparr>"
    by (simp add: readFile_def extractPdfText_def)
next
  fix e
  assume "file_type (uf_file file) =
          ''application/vnd.openxmlformats-officedocument.wordprocessingml.document'' \<and>
        tryExtractDocxText env (uf_file file) = Inl e"
  then show "readFile env file =
          Inr \<lparr>name = uf_name file,
               file_content = ''Error extracting content from DOCX: '' @ file_name (uf_file file)\<rparr>"
    by (simp add: readFile_def extractDocxText_def)
next
  fix e
  assume "file_type (uf_file file) =
          ''application/vnd.openxmlformats-officedocument.presentationml.presentation'' \<and>
        tryExtractPptxText env (uf_file file) = Inl e"
  then show "readFile env file =
          Inr \<lparr>name = uf_name file,
               file_content = ''Error extracting content from PPTX: '' @ file_name (uf_file file)\<rparr>"
    by (simp add: readFile_def extractPptxText_def)
next
  assume a: "client st \<noteq> None \<and> (\<forall>f\<in>set files. \<forall>e. readFile env f \<noteq> Inl e)"
  then have "\<forall>p\<in>set (map (readFile env) files). \<forall>e. p \<noteq> Inl e" by simp
  from promiseAll_fulfilled [OF this] obtain extracted where
    p: "promiseAll (map (readFile env) files) = Inr extracted"
    and m: "map Inr extracted = map (readFile env) files" by blast
  from a p have "fileContents (fst (uploadFiles env st files)) = fileContents st @ extracted \<and>
         snd (uploadFiles env st files) =
           (if isInitialized (svc_vectorStore st) then
              (case addDocuments env (svc_vectorStore st) extracted of
                 Inl e \<Rightarrow> Inl e
               | Inr vs \<Rightarrow> Inr ())
            else Inr ())"
    using uploadFiles_fulfilled by blast
  with m show "\<exists>extracted.
         map Inr extracted = map (readFile env) files \<and>
         fileContents (fst (uploadFiles env st files)) = fileContents st @ extracted \<and>
         snd (uploadFiles env st files) =
           (if isInitialized (svc_vectorStore st) then
              (case addDocuments env (svc_vectorStore st) extracted of
                 Inl e \<Rightarrow> Inl e
               | Inr vs \<Rightarrow> Inr ())
            else Inr ())" by blast
next
  assume a: "client st \<noteq> None \<and> (\<exists>f\<in>set files. \<exists>e. readFile env f = Inl e)"
  then obtain f e where f: "f \<in> set files" "readFile env f = Inl e" by blast
  then have e: "e = Error ''Failed to read file''" using readFile_rejects by blast
  from f e have 1: "Inl (Error ''Failed to read file'') \<in> set (map (readFile env) files)"
    by force
  have 2: "\<forall>p\<in>set (map (readFile env) files). \<forall>e'. p = Inl e' \<longrightarrow> e' = Error ''Failed to read file''"
    using readFile_rejects by fastforce
  from promiseAll_rejected [OF 1 2] a
  show "uploadFiles env st files = (st, Inl (Error ''Failed to read file''))"
    using uploadFiles_rejected by blast
qed

lemma example_broken_pdf:
  "tryExtractPdfText exampleEnv (uf_file brokenPdfFile) = Inl (External ''NotReadableError'')"
  by (simp add: tryExtractPdfText_def brokenPdfFile_def external_def)

lemma example_notes:
  "readFile exampleEnv notesFile = Inr \<lparr>name = ''notes.txt'', file_content = ''hello''\<rparr>"
  by (simp add: readFile_def notesFile_def or_else_def)

lemma example_unreadable:
  "readFile exampleEnv unreadableTextFile = Inl (Error ''Failed to read file'')"
  by (simp add: readFile_def unreadableTextFile_def)

theorem uploadFiles_batch_witness:
  "file_type (uf_file brokenPdfFile) = ''application/pdf'' \<and>
   tryExtractPdfText exampleEnv (uf_file brokenPdfFile) = Inl (External ''NotReadableError'') \<and>
   readFile exampleEnv brokenPdfFile =
     Inr \<lparr>name = ''broken.pdf'', file_content = ''Error extracting content from PDF: broken.pdf''\<rparr> \<and>
   client (newOpenAIService (Some ''sk-test'')) \<noteq> None \<and>
   fileContents (fst (uploadFiles exampleEnv (newOpenAIService (Some ''sk-test''))
                        [brokenPdfFile, notesFile])) =
     [\<lparr>name = ''broken.pdf'', file_content = ''Error extracting content from PDF: broken.pdf''\<rparr>,
      \<lparr>name = ''notes.txt'', file_content = ''hello''\<rparr>] \<and>
   readFile exampleEnv unreadableTextFile = Inl (Error ''Failed to read file'') \<and>
   uploadFiles exampleEnv (newOpenAIService (Some ''sk-test'')) [brokenPdfFile, unreadableTextFile] =
     (newOpenAIService (Some ''sk-test''), Inl (Error ''Failed to read file''))"
proof -
  let ?st = "newOpenAIService (Some ''sk-test'')"
  let ?files = "[brokenPdfFile, notesFile]"
  have t: "file_type (uf_file brokenPdfFile) = ''application/pdf''"
    and n: "uf_name brokenPdfFile = ''broken.pdf''" "file_name (uf_file brokenPdfFile) = ''broken.pdf''"
    by (simp_all add: brokenPdfFile_def)
  have c: "client ?st \<noteq> None" and f: "fileContents ?st = []"
    by (simp_all add: newOpenAIService_def)
  note b = uploadFiles_batch [of brokenPdfFile exampleEnv ?st ?files]
  from b t example_broken_pdf n have r: "readFile exampleEnv brokenPdfFile =
     Inr \<lparr>name = ''broken.pdf'', file_content = ''Error extracting content from PDF: broken.pdf''\<rparr>"
    by simp
  from r example_notes have ok: "\<forall>f\<in>set ?files. \<forall>e. readFile exampleEnv f \<noteq> Inl e"
    by simp
  from b c ok obtain extracted where
    m: "map Inr extracted = map (readFile exampleEnv) ?files" and
    u: "fileContents (fst (uploadFiles exampleEnv ?st ?files)) = fileContents ?st @ extracted"
    by blast
  from m r example_notes have "extracted =
     [\<lparr>name = ''broken.pdf'', file_content = ''Error extracting content from PDF: broken.pdf''\<rparr>,
      \<lparr>name = ''notes.txt'', file_content = ''hello''\<rparr>]"
    by (auto simp: map_eq_Cons_conv)
  with u f have stored: "fileContents (fst (uploadFiles exampleEnv ?st ?files)) =
     [\<lparr>name = ''broken.pdf'', file_content = ''Error extracting content from PDF: broken.pdf''\<rparr>,
      \<lparr>name = ''notes.txt'', file_content = ''hello''\<rparr>]"
    by simp
  have "\<exists>f\<in>set [brokenPdfFile, unreadableTextFile]. \<exists>e. readFile exampleEnv f = Inl e"
    using example_unreadable by simp
  with c uploadFiles_batch [of brokenPdfFile exampleEnv ?st "[brokenPdfFile, unreadableTextFile]"]
  have rejected: "uploadFiles exampleEnv ?st [brokenPdfFile, unreadableTextFile] =
     (?st, Inl (Error ''Failed to read file''))"
    by blast
  from t example_broken_pdf r c stored example_unreadable rejected show ?thesis
    by (intro conjI)
qed

section \<open>The chat message list\<close>

lemma handleSendSettle_appends:
  "\<exists>m. chat_messages (handleSendSettle outcome uuid now st) = chat_messages st @ [m]"
  by (cases outcome) (simp_all add: handleSendSettle_def)

lemma handleSendStart_appends:
  "\<exists>new. chat_messages (fst (handleSendStart loading uuid now st)) = chat_messages st @ new \<and>
          length new \<le> 1"
  by (simp add: handleSendStart_def)

lemma chatStep_appends:
  "\<exists>new. chat_messages (chatStep event st) = chat_messages st @ new \<and> length new \<le> 1"
proof (cases event)
  case (InputChange v)
  then show ?thesis by simp
next
  case (KeyPress key shiftKey loading uuid now)
  then show ?thesis using handleSendStart_appends by (simp add: handleKeyPress_def)
next
  case (SendClick loading uuid now)
  then show ?thesis using handleSendStart_appends by simp
next
  case (Settled outcome uuid now)
  obtain m where "chat_messages (handleSendSettle outcome uuid now st) = chat_messages st @ [m]"
    using handleSendSettle_appends by blast
  with Settled show ?thesis by simp
qed

lemma chatRun_appends:
  "\<exists>new. chat_messages (chatRun events st) = chat_messages st @ new"
proof (induction events arbitrary: st)
  case Nil
  then show ?case by simp
next
  case (Cons event events)
  obtain n1 where 1: "chat_messages (chatStep event st) = chat_messages st @ n1"
    using chatStep_appends by blast
  obtain n2 where 2: "chat_messages (chatRun events (chatStep event st)) =
      chat_messages (chatStep event st) @ n2"
    using Cons.IH by blast
  from 1 2 show ?case by simp
qed

lemma handleSend_appends:
  "\<exists>st' new. handleSend onSendMessage loading uuid1 now1 uuid2 now2 st = Inr st' \<and>
     chat_messages st' = chat_messages st @ new"
proof (cases "trim (chat_input st) = [] \<or> loading")
  case True
  then show ?thesis by (auto simp: handleSend_def handleSendStart_def)
next
  case False
  then show ?thesis
    by (cases "onSendMessage (trim (chat_input st))")
       (auto simp: handleSend_def handleSendStart_def handleSendSettle_def)
qed











lemma example_upload_notes:
  "uploadFiles exampleEnv (newOpenAIService (Some ''sk-test'')) [notesFile] =
     (chattedService\<lparr>systemInstructions := []\<rparr>, Inr ())"
  by (simp add: uploadFiles_def newOpenAIService_def example_notes isInitialized_def
      initialize_def newVectorStoreService_def)
     (simp add: addDocuments_def store_addDocuments_def docsWithMetadata_def
      createDocuments_def splitText.simps exampleEnv_def external_def enumerate_eq_zip upt_rec
      chattedService_def)

lemma example_reach_key: "pageStep keepMounted 0 (ApiKeySet ''sk-test'') (newPage None) = keyedPage"
  by (simp add: pageStep_def handleApiKeySet_def newPage_def commit_def chatRendered_def
      keyedPage_def)

lemma example_reach_upload:
  "pageStep keepMounted 1 (FilesChange exampleEnv (onDrop [] [notesFile])) keyedPage =
     chattedPage\<lparr>chatInterface := Some (newChatInterface 1)\<rparr>"
proof -
  have h: "handleFilesChange exampleEnv [notesFile] keyedPage =
      keyedPage\<lparr>uploadedFiles := [notesFile], openaiService := Some chattedService,
        activeTab := ''chat''\<rparr>"
    unfolding handleFilesChange_def keyedPage_def
    by (simp add: example_upload_notes createAssistant_def) (simp add: chattedService_def)
  show ?thesis
    unfolding pageStep_def pageHandle.simps onDrop_def append_Nil h
    by (simp add: commit_def chatRendered_def keyedPage_def chattedPage_def)
qed

lemma example_reach_chat:
  "chatStep (Settled (Inr ''An answer'') ''u2'' 4)
     (chatStep (SendClick False ''u1'' 3)
        (chatStep (InputChange '' hey '') (newChatInterface 1))) = chattedInterface"
  by (simp add: newChatInterface_def handleSendStart_def handleSendSettle_def trim_def
      isWhiteSpace_def chattedInterface_def)

lemma example_reach_event:
  "pageStep keepMounted now (Chat event) (chattedPage\<lparr>chatInterface := Some chat\<rparr>) =
     chattedPage\<lparr>chatInterface := Some (chatStep event chat)\<rparr>"
  by (simp add: pageStep_def commit_def chatRendered_def chattedPage_def)

lemma chattedPage_reachable:
  "pageRun keepMounted
     [(0, ApiKeySet ''sk-test''),
      (1, FilesChange exampleEnv (onDrop [] [notesFile])),
      (2, Chat (InputChange '' hey '')),
      (3, Chat (SendClick False ''u1'' 3)),
      (4, Chat (Settled (Inr ''An answer'') ''u2'' 4))]
     (newPage None) = chattedPage"
proof -
  have "pageRun keepMounted
     [(0, ApiKeySet ''sk-test''),
      (1, FilesChange exampleEnv (onDrop [] [notesFile])),
      (2, Chat (InputChange '' hey '')),
      (3, Chat (SendClick False ''u1'' 3)),
      (4, Chat (Settled (Inr ''An answer'') ''u2'' 4))]
     (newPage None) =
     pageStep keepMounted 4 (Chat (Settled (Inr ''An answer'') ''u2'' 4))
       (pageStep keepMounted 3 (Chat (SendClick False ''u1'' 3))
          (pageStep keepMounted 2 (Chat (InputChange '' hey ''))
             (chattedPage\<lparr>chatInterface := Some (newChatInterface 1)\<rparr>)))"
    by (simp only: pageRun.simps example_reach_key example_reach_upload)
  also have "\<dots> = chattedPage\<lparr>chatInterface := Some chattedInterface\<rparr>"
    by (simp only: example_reach_event example_reach_chat)
  also have "\<dots> = chattedPage"
    by (simp add: chattedPage_def)
  finally show ?thesis .
qed

lemma example_remount:
  "chatInterface
     (pageRun keepMounted
        [(5, FilesChange exampleEnv (removeFile ''f3'' (uploadedFiles chattedPage))),
         (6, FilesChange exampleEnv (onDrop [] [notesFile]))]
        chattedPage) = Some (newChatInterface 6)"
proof -
  have r: "removeFile ''f3'' (uploadedFiles chattedPage) = []"
    by (simp add: removeFile_def chattedPage_def notesFile_def)
  have 5: "pageStep keepMounted 5 (FilesChange exampleEnv []) chattedPage =
     chattedPage\<lparr>uploadedFiles := [], chatInterface := None\<rparr>"
    by (simp add: pageStep_def handleFilesChange_def commit_def chatRendered_def)
  have 6: "chatInterface (pageStep keepMounted 6 (FilesChange exampleEnv (onDrop [] [notesFile]))
     (chattedPage\<lparr>uploadedFiles := [], chatInterface := None\<rparr>)) = Some (newChatInterface 6)"
    by (simp add: pageStep_def handleFilesChange_def onDrop_def commit_def chatRendered_def
        chattedPage_def split: prod.splits sum.splits)
  show ?thesis by (simp add: r 5 6)
qed

lemma pageHandle_chat:
  "chatInterface (pageHandle event p) =
     (case event of
        Chat e \<Rightarrow> map_option (chatStep e) (chatInterface p)
      | _ \<Rightarrow> chatInterface p)"
  by (cases event)
     (auto simp: handleApiKeySet_def handleFilesChange_def handleSystemInstructionsChange_def
        split: option.splits prod.splits sum.splits)

lemma pageStep_mounted:
  assumes "chatInterface p = Some chat" and "chatInterface (pageStep keepMounted now event p) = Some chat'"
  shows "\<exists>new. chat_messages chat' = chat_messages chat @ new"
proof -
  from assms(2) have "chatInterface (pageHandle event p) = Some chat'"
    using assms(1) pageHandle_chat [of event p]
    by (auto simp: pageStep_def commit_def split: if_splits option.splits PageEvent.splits)
  with assms(1) pageHandle_chat [of event p]
  have "chat' = chat \<or> (\<exists>e. chat' = chatStep e chat)"
    by (auto split: PageEvent.splits)
  then show ?thesis using chatStep_appends by (metis append_Nil2)
qed

lemma pageStep_unmounted:
  "length (uploadedFiles (pageStep keepMounted now event p)) = 0 \<Longrightarrow> chatInterface (pageStep keepMounted now event p) = None"
  by (auto simp: pageStep_def commit_def chatRendered_def split: if_splits option.splits)

lemma pageStep_mounts:
  assumes "chatInterface p = None" and "chatInterface (pageStep keepMounted now event p) = Some chat'"
  shows "chat' = newChatInterface now"
proof -
  from assms(1) pageHandle_chat [of event p] have "chatInterface (pageHandle event p) = None"
    by (auto split: PageEvent.splits)
  with assms(2) show ?thesis
    by (auto simp: pageStep_def commit_def split: if_splits)
qed

text \<open>
  Claim C6, as stated, fails: the list is not cleared on a page reload only. On a page
  whose chat holds three messages, removing the one uploaded file makes the page render
  the chat interface no longer, and after a file is dropped again a new chat interface is
  mounted whose list holds the greeting alone, whether or not the tabs keep the content
  of an inactive tab mounted.
\<close>

theorem chat_messages_cleared_counterexample:
  "chatInterface chattedPage = Some chattedInterface \<and>
   length (chat_messages chattedInterface) = 3 \<and>
   chatInterface
     (pageRun False
        [(5, FilesChange exampleEnv (removeFile ''f3'' (uploadedFiles chattedPage))),
         (6, FilesChange exampleEnv (onDrop [] [notesFile]))]
        chattedPage) = Some (newChatInterface 6) \<and>
   chatInterface
     (pageRun True
        [(5, FilesChange exampleEnv (removeFile ''f3'' (uploadedFiles chattedPage))),
         (6, FilesChange exampleEnv (onDrop [] [notesFile]))]
        chattedPage) = Some (newChatInterface 6) \<and>
   length (chat_messages (newChatInterface 6)) = 1"
proof -
  have a: "chatInterface chattedPage = Some chattedInterface"
    by (simp add: chattedPage_def)
  have b: "length (chat_messages chattedInterface) = 3"
    by (simp add: chattedInterface_def)
  have c: "length (chat_messages (newChatInterface 6)) = 1"
    by (simp add: newChatInterface_def)
  from a b example_remount [of False] example_remount [of True] c
  show ?thesis by (intro conjI)
qed

text \<open>
  Claim C6, amended. While the chat interface is mounted its message list is append-only.
  Every event of the chat interface (a change of the input, a key press, a click on the
  send button, a settled call) leaves the list as it is or appends one message to it, with
  the role of the user or of the assistant, a text and a timestamp; after any run of
  events, and after a whole call of \<open>handleSend\<close>, the list starts with the messages it
  had before, unchanged, and it is never empty. Across an event of the page the list of a
  chat interface that stays mounted only grows; when no uploaded file is left the chat
  interface is unmounted, and a chat interface that is mounted starts from the greeting.
\<close>

theorem chat_messages_append_only:
  "(\<exists>new. chat_messages (chatStep event st) = chat_messages st @ new \<and> length new \<le> 1) \<and>
   (\<exists>new. chat_messages (chatRun events st) = chat_messages st @ new) \<and>
   take (length (chat_messages st)) (chat_messages (chatRun events st)) = chat_messages st \<and>
   (\<exists>st' new. handleSend onSendMessage loading uuid1 now1 uuid2 now2 st = Inr st' \<and>
      chat_messages st' = chat_messages st @ new) \<and>
   chat_messages (chatRun events (newChatInterface now)) \<noteq> [] \<and>
   (\<forall>chat chat'.
      chatInterface p = Some chat \<and>
      chatInterface (pageStep keepMounted now pageEvent p) = Some chat' \<longrightarrow>
      (\<exists>new. chat_messages chat' = chat_messages chat @ new)) \<and>
   (length (uploadedFiles (pageStep keepMounted now pageEvent p)) = 0 \<longrightarrow>
      chatInterface (pageStep keepMounted now pageEvent p) = None) \<and>
   (\<forall>chat'.
      chatInterface p = None \<and>
      chatInterface (pageStep keepMounted now pageEvent p) = Some chat' \<longrightarrow>
      chat' = newChatInterface now)"
proof -
  obtain new where "chat_messages (chatRun events (newChatInterface now)) =
      chat_messages (newChatInterface now) @ new"
    using chatRun_appends by blast
  then have 1: "chat_messages (chatRun events (newChatInterface now)) \<noteq> []"
    by (simp add: newChatInterface_def)
  obtain new' where "chat_messages (chatRun events st) = chat_messages st @ new'"
    using chatRun_appends by blast
  then have 2: "take (length (chat_messages st)) (chat_messages (chatRun events st)) = chat_messages st"
    by simp
  have 3: "\<forall>chat chat'.
      chatInterface p = Some chat \<and>
      chatInterface (pageStep keepMounted now pageEvent p) = Some chat' \<longrightarrow>
      (\<exists>new. chat_messages chat' = chat_messages chat @ new)"
    using pageStep_mounted by blast
  have 4: "length (uploadedFiles (pageStep keepMounted now pageEvent p)) = 0 \<longrightarrow>
      chatInterface (pageStep keepMounted now pageEvent p) = None"
    using pageStep_unmounted by blast
  have 5: "\<forall>chat'.
      chatInterface p = None \<and>
      chatInterface (pageStep keepMounted now pageEvent p) = Some chat' \<longrightarrow>
      chat' = newChatInterface now"
    using pageStep_mounts by blast
  show ?thesis
    using chatStep_appends [of event st] chatRun_appends [of events st]
      handleSend_appends [of onSendMessage loading uuid1 now1 uuid2 now2 st] 1 2 3 4 5
    by (intro conjI)
qed

lemma example_run:
  "chat_messages (chatRun exampleEvents (newChatInterface 0)) =
     chat_messages (newChatInterface 0) @
       [\<lparr>msg_id = ''u1'', msg_role = RoleUser, msg_content = ''hey'', msg_timestamp = 1\<rparr>,
        \<lparr>msg_id = ''u3'', msg_role = RoleUser, msg_content = ''more'', msg_timestamp = 3\<rparr>,
        \<lparr>msg_id = ''u2'', msg_role = RoleAssistant, msg_content = ''An answer'', msg_timestamp = 2\<rparr>,
        \<lparr>msg_id = ''u4'', msg_role = RoleAssistant, msg_content = sendFailed, msg_timestamp = 4\<rparr>]"
  by (simp add: exampleEvents_def newChatInterface_def handleSendStart_def handleSendSettle_def
      handleKeyPress_def trim_def isWhiteSpace_def)

lemma example_unmount:
  "pageStep keepMounted 5 (FilesChange exampleEnv []) chattedPage =
     chattedPage\<lparr>uploadedFiles := [], chatInterface := None\<rparr>"
  by (simp add: pageStep_def handleFilesChange_def commit_def chatRendered_def)

lemma example_stays_mounted:
  "chatInterface (pageStep False 7 (Chat (InputChange ''next'')) chattedPage) =
     Some (chattedInterface\<lparr>chat_input := ''next''\<rparr>)"
  by (simp add: pageStep_def commit_def chatRendered_def chattedPage_def)

lemma example_mounts:
  "chatInterface (pageStep False 1 (FilesChange exampleEnv (onDrop [] [notesFile])) keyedPage) =
     Some (newChatInterface 1)"
  by (subst example_reach_upload) simp

theorem chat_messages_append_only_witness:
  "chat_messages (chatRun exampleEvents (newChatInterface 0)) =
     chat_messages (newChatInterface 0) @
       [\<lparr>msg_id = ''u1'', msg_role = RoleUser, msg_content = ''hey'', msg_timestamp = 1\<rparr>,
        \<lparr>msg_id = ''u3'', msg_role = RoleUser, msg_content = ''more'', msg_timestamp = 3\<rparr>,
        \<lparr>msg_id = ''u2'', msg_role = RoleAssistant, msg_content = ''An answer'', msg_timestamp = 2\<rparr>,
        \<lparr>msg_id = ''u4'', msg_role = RoleAssistant, msg_content = sendFailed, msg_timestamp = 4\<rparr>] \<and>
   take (length (chat_messages (newChatInterface 0)))
     (chat_messages (chatRun exampleEvents (newChatInterface 0))) = chat_messages (newChatInterface 0) \<and>
   length (uploadedFiles (pageStep False 5 (FilesChange exampleEnv []) chattedPage)) = 0 \<and>
   chatInterface (pageStep False 5 (FilesChange exampleEnv []) chattedPage) = None \<and>
   chatInterface chattedPage = Some chattedInterface \<and>
   chatInterface (pageStep False 7 (Chat (InputChange ''next'')) chattedPage) =
     Some (chattedInterface\<lparr>chat_input := ''next''\<rparr>) \<and>
   chat_messages (chattedInterface\<lparr>chat_input := ''next''\<rparr>) = chat_messages chattedInterface \<and>
   chatInterface keyedPage = None \<and>
   chatInterface (pageStep False 1 (FilesChange exampleEnv (onDrop [] [notesFile])) keyedPage) =
     Some (newChatInterface 1)"
proof -
  have u: "length (uploadedFiles (pageStep False 5 (FilesChange exampleEnv []) chattedPage)) = 0"
    by (simp add: example_unmount)
  have a: "chatInterface chattedPage = Some chattedInterface"
    by (simp add: chattedPage_def)
  have k: "chatInterface keyedPage = None"
    by (simp add: keyedPage_def)
  have g: "chat_messages (chattedInterface\<lparr>chat_input := ''next''\<rparr>) = chat_messages chattedInterface"
    by simp
  from chat_messages_append_only
         [where st = "newChatInterface 0" and events = exampleEvents and p = chattedPage
            and keepMounted = False and now = 5 and pageEvent = "FilesChange exampleEnv []"]
       example_run u
  have 1: "chatInterface (pageStep False 5 (FilesChange exampleEnv []) chattedPage) = None"
    and 2: "take (length (chat_messages (newChatInterface 0)))
     (chat_messages (chatRun exampleEvents (newChatInterface 0))) = chat_messages (newChatInterface 0)"
    by blast+
  from example_run 2 u 1 a example_stays_mounted g k example_mounts show ?thesis
    by (intro conjI)
qed

end
